theory Spec2Isabelle
  imports Complex_Main "HOL-Library.Sublist" "HOL-Library.Multiset" "HOL-Library.Code_Target_Nat"
begin

section \<open>JavaScript strings and values\<close>

text \<open>
  The repository reads the chats a code editor stores, attributes every conversation
  to a workspace and assembles its messages.  This theory embeds the functions that do
  so, from \<open>src/app/api/workspaces/[id]/tabs/route.ts\<close> (the tabs route), from the
  workspaces route and from \<open>scripts/export.js\<close>, and proves what they compute.

  A JavaScript string is a sequence of UTF-16 code units and is modelled as the list of
  their numbers, so that \<open>length\<close>, \<open>slice\<close>, \<open>startsWith\<close> and the comparison of strings
  are those of the list.  A string literal of the source is written \<open>js ''...''\<close> (the
  literals of the source are ASCII).  A value that may be \<open>undefined\<close> or \<open>null\<close> is an
  \<open>option\<close>; the truthiness tests of the source (\<open>if (x)\<close>, \<open>x || y\<close>) are written out.
  An object used as a dictionary is a map from its own keys (the ids, names and paths
  that are keys here are taken not to be names of properties of \<open>Object.prototype\<close>).
  Times in milliseconds and token counts are \<^typ>\<open>int\<close>, costs and percentages
  \<^typ>\<open>rat\<close>: the rounding of doubles is not modelled.  What is read from the disk or
  the database is an argument; the platform (\<open>process.platform\<close>), the clock
  (\<open>Date.now()\<close>) and the functions of the JavaScript library that follow tables outside
  the repository (\<open>toLowerCase\<close>, \<open>JSON.stringify\<close>) are arguments too.
\<close>

type_synonym codeUnit = nat

type_synonym jsString = "codeUnit list"

definition js :: "string \<Rightarrow> jsString" where
  "js s = map of_char s"

definition truthy :: "jsString option \<Rightarrow> bool" where
  "truthy v = (case v of None \<Rightarrow> False | Some s \<Rightarrow> s \<noteq> [])"

definition truthyNum :: "int option \<Rightarrow> bool" where
  "truthyNum v = (case v of None \<Rightarrow> False | Some n \<Rightarrow> n \<noteq> 0)"

text \<open>The code units of \<open>/\<close>, \<open>\\<close>, \<open>%\<close>, \<open>:\<close> and of the line feed.\<close>

definition slash :: codeUnit where
  "slash = 0x2F"

definition backslash :: codeUnit where
  "backslash = 0x5C"

definition percent :: codeUnit where
  "percent = 0x25"

definition colon :: codeUnit where
  "colon = 0x3A"

definition newline :: codeUnit where
  "newline = 0x0A"

text \<open>\<open>s.replace(/^pre/, '')\<close> for a literal prefix.\<close>

definition stripPrefix :: "jsString \<Rightarrow> jsString \<Rightarrow> jsString" where
  "stripPrefix pre s = (if prefix pre s then drop (length pre) s else s)"

text \<open>\<open>s.replace(pat, '')\<close> for a string pattern: the first occurrence, anywhere.\<close>

fun replaceFirst :: "jsString \<Rightarrow> jsString \<Rightarrow> jsString" where
  "replaceFirst pat [] = []"
| "replaceFirst pat (c # cs) =
     (if prefix pat (c # cs) then drop (length pat) (c # cs) else c # replaceFirst pat cs)"

text \<open>\<open>s.split(sep)\<close> for a one-character separator; never empty.\<close>

fun split :: "codeUnit \<Rightarrow> jsString \<Rightarrow> jsString list" where
  "split sep [] = [[]]"
| "split sep (c # cs) =
     (case split sep cs of
        [] \<Rightarrow> (if c = sep then [[], []] else [[c]])
      | w # ws \<Rightarrow> (if c = sep then [] # w # ws else (c # w) # ws))"

text \<open>\<open>s.split(sep).pop()\<close>: the text after the last separator.\<close>

definition splitPop :: "codeUnit \<Rightarrow> jsString \<Rightarrow> jsString" where
  "splitPop sep s = last (split sep s)"

text \<open>\<open>s.includes(t)\<close>, \<open>s.startsWith(t)\<close> and \<open>s.endsWith(t)\<close>.\<close>

definition includesStr :: "jsString \<Rightarrow> jsString \<Rightarrow> bool" where
  "includesStr s t = sublist t s"

definition startsWith :: "jsString \<Rightarrow> jsString \<Rightarrow> bool" where
  "startsWith s t = prefix t s"

definition endsWith :: "jsString \<Rightarrow> jsString \<Rightarrow> bool" where
  "endsWith s t = suffix t s"

subsection \<open>\<open>decodeURIComponent\<close>\<close>

definition hexVal :: "codeUnit \<Rightarrow> nat option" where
  "hexVal c =
     (if 48 \<le> c \<and> c \<le> 57 then Some (c - 48)
      else if 65 \<le> c \<and> c \<le> 70 then Some (c - 55)
      else if 97 \<le> c \<and> c \<le> 102 then Some (c - 87)
      else None)"

text \<open>The octet written by a percent escape at the head of the text, and the rest.\<close>

fun parseEscape :: "jsString \<Rightarrow> (nat \<times> jsString) option" where
  "parseEscape (p # h # l # rest) =
     (if p = percent then
        (case (hexVal h, hexVal l) of
           (Some a, Some b) \<Rightarrow> Some (16 * a + b, rest)
         | _ \<Rightarrow> None)
      else None)"
| "parseEscape _ = None"

text \<open>The number of octets of the UTF-8 sequence a leading octet announces.\<close>

definition leadingOnes :: "nat \<Rightarrow> nat" where
  "leadingOnes b =
     (if b < 128 then 0 else if b < 192 then 1 else if b < 224 then 2
      else if b < 240 then 3 else if b < 248 then 4 else 5)"

text \<open>The continuation escapes of a multi-byte sequence: each must be a percent escape.\<close>

fun parseContinuation :: "nat \<Rightarrow> jsString \<Rightarrow> (nat list \<times> jsString) option" where
  "parseContinuation 0 s = Some ([], s)"
| "parseContinuation (Suc j) s =
     (case parseEscape s of
        None \<Rightarrow> None
      | Some (b, rest) \<Rightarrow>
          (case parseContinuation j rest of
             None \<Rightarrow> None
           | Some (bs, rest') \<Rightarrow> Some (b # bs, rest')))"

definition isCont :: "nat \<Rightarrow> bool" where
  "isCont b = (128 \<le> b \<and> b < 192)"

text \<open>Whether the octets are the UTF-8 encoding of one Unicode code point.\<close>

fun validUtf8 :: "nat list \<Rightarrow> bool" where
  "validUtf8 [b0, b1] = (194 \<le> b0 \<and> b0 < 224 \<and> isCont b1)"
| "validUtf8 [b0, b1, b2] =
     (224 \<le> b0 \<and> b0 < 240 \<and> isCont b1 \<and> isCont b2 \<and>
      (b0 = 224 \<longrightarrow> 160 \<le> b1) \<and> (b0 = 237 \<longrightarrow> b1 < 160))"
| "validUtf8 [b0, b1, b2, b3] =
     (240 \<le> b0 \<and> b0 \<le> 244 \<and> isCont b1 \<and> isCont b2 \<and> isCont b3 \<and>
      (b0 = 240 \<longrightarrow> 144 \<le> b1) \<and> (b0 = 244 \<longrightarrow> b1 < 144))"
| "validUtf8 _ = False"

text \<open>The code point a valid sequence of octets encodes, and its UTF-16 code units (a
  surrogate pair above the basic plane).\<close>

fun codePoint :: "nat list \<Rightarrow> nat" where
  "codePoint [b0, b1] = (b0 - 192) * 64 + (b1 - 128)"
| "codePoint [b0, b1, b2] = (b0 - 224) * 4096 + (b1 - 128) * 64 + (b2 - 128)"
| "codePoint [b0, b1, b2, b3] =
     (b0 - 240) * 262144 + (b1 - 128) * 4096 + (b2 - 128) * 64 + (b3 - 128)"
| "codePoint _ = 0"

definition utf16 :: "nat \<Rightarrow> jsString" where
  "utf16 cp =
     (if cp < 65536 then [cp]
      else [55296 + (cp - 65536) div 1024, 56320 + (cp - 65536) mod 1024])"

text \<open>
  The decoder: \<open>None\<close> is the \<open>URIError\<close> of a malformed escape.  An octet below 128
  is one character; a leading octet of a longer sequence must be followed by its
  continuation escapes, and the sequence must encode a code point.
\<close>

function decodeLoop :: "jsString \<Rightarrow> jsString option" where
  "decodeLoop [] = Some []"
| "decodeLoop (c # cs) =
     (if c \<noteq> percent then map_option ((#) c) (decodeLoop cs)
      else
        (case parseEscape (c # cs) of
           None \<Rightarrow> None
         | Some (b, rest) \<Rightarrow>
             if leadingOnes b = 0 then map_option ((#) b) (decodeLoop rest)
             else if leadingOnes b = 1 \<or> leadingOnes b > 4 then None
             else
               (case parseContinuation (leadingOnes b - 1) rest of
                  None \<Rightarrow> None
                | Some (bs, rest') \<Rightarrow>
                    if validUtf8 (b # bs)
                    then map_option ((@) (utf16 (codePoint (b # bs)))) (decodeLoop rest')
                    else None)))"
  by pat_completeness auto

lemma parseEscape_length: "parseEscape s = Some (b, rest) \<Longrightarrow> length rest < length s"
  by (induction s rule: parseEscape.induct) (auto split: if_splits option.splits)

lemma parseContinuation_length:
  "parseContinuation j s = Some (bs, rest) \<Longrightarrow> length rest \<le> length s"
proof (induction j arbitrary: s bs rest)
  case 0
  then show ?case by simp
next
  case (Suc j)
  then show ?case
    by (fastforce split: option.splits dest: parseEscape_length)
qed

termination decodeLoop
proof (relation "measure length", goal_cases)
  case 1
  then show ?case by simp
next
  case (2 c cs)
  then show ?case by simp
next
  case (3 c cs x2 b rest)
  then show ?case using parseEscape_length [of "c # cs" b rest] by simp
next
  case (4 c cs x2 b rest x2a bs rest')
  then show ?case
    using parseEscape_length [of "c # cs" b rest]
      parseContinuation_length [of "leadingOnes b - 1" rest bs rest'] by simp
qed

definition decodeURIComponent :: "jsString \<Rightarrow> jsString option" where
  "decodeURIComponent s = decodeLoop s"

section \<open>Path normalizer\<close>

text \<open>
  The platform.  Only win32 folds the case of a path, with \<open>String.prototype.toLowerCase\<close>:
  it follows the case tables of Unicode, which are not part of the repository, so the
  function is an argument, carried by the platform that calls it.
\<close>

datatype platform = Posix | Win32 "jsString \<Rightarrow> jsString"

text \<open>\<open>process.platform === 'win32'\<close>.\<close>

definition win32 :: "platform \<Rightarrow> bool" where
  "win32 platform = (case platform of Win32 toLowerCase \<Rightarrow> True | Posix \<Rightarrow> False)"

text \<open>
  The class \<open>[a-z]\<close> under the flag \<open>i\<close> (without the flag \<open>u\<close>): the letters of ASCII in
  either case, and no other code unit.
\<close>

definition isLetter :: "codeUnit \<Rightarrow> bool" where
  "isLetter c = ((65 \<le> c \<and> c \<le> 90) \<or> (97 \<le> c \<and> c \<le> 122))"

text \<open>\<open>n.replace(/^\\([a-z]:)/i, '$1')\<close>: drop a backslash in front of a drive letter.\<close>

fun stripDriveSlash :: "jsString \<Rightarrow> jsString" where
  "stripDriveSlash (b # d # c # rest) =
     (if b = backslash \<and> isLetter d \<and> c = colon then d # c # rest else b # d # c # rest)"
| "stripDriveSlash s = s"

text \<open>
  \<open>normalizeFilePath\<close> of \<open>tabs/route.ts\<close>, of the workspaces route and of
  \<open>scripts/export.js\<close> (the same text in all three).
\<close>

definition normalizeFilePath :: "platform \<Rightarrow> jsString \<Rightarrow> jsString" where
  "normalizeFilePath platform filePath =
     (let normalized = stripPrefix (js ''file://'') (stripPrefix (js ''file:///'') filePath);
          normalized = (case decodeURIComponent normalized of
                          Some d \<Rightarrow> d
                        | None \<Rightarrow> normalized)
      in case platform of
           Win32 toLowerCase \<Rightarrow>
             (let normalized = stripDriveSlash
                                 (map (\<lambda>c. if c = slash then backslash else c) normalized);
                  normalized = toLowerCase normalized
              in normalized)
         | Posix \<Rightarrow> normalized)"


section \<open>Workspace catalog\<close>

text \<open>
  A workspace entry is a directory of the editor's workspace storage: its name is the
  workspace id, and \<open>workspaceJson\<close> is what \<open>JSON.parse(readFileSync(workspaceJsonPath))\<close>
  gives, \<open>None\<close> when the read or the parse throws (every loop over the entries
  catches that and moves on to the next entry).
\<close>

record workspaceData =
  folder :: "jsString option"
  folders :: "jsString option list option"

record workspaceEntry =
  name :: jsString
  workspaceJson :: "workspaceData option"

definition getWorkspaceFolderPaths :: "workspaceData \<Rightarrow> jsString list" where
  "getWorkspaceFolderPaths workspaceData =
     (if truthy (folder workspaceData) then [the (folder workspaceData)] else []) @
     (case folders workspaceData of
        None \<Rightarrow> []
      | Some fs \<Rightarrow> map the (filter truthy fs))"

text \<open>
  \<open>getProjectFromFilePath\<close> (\<open>tabs/route.ts\<close>, the workspaces route, \<open>export.js\<close>): the
  inner loop over the folders of one entry and the outer loop over the entries, with
  the pair \<open>(bestMatch, bestLen)\<close> as the state.
\<close>

fun prefixFolders ::
  "platform \<Rightarrow> jsString \<Rightarrow> jsString \<Rightarrow> jsString list \<Rightarrow> jsString option \<times> nat \<Rightarrow> jsString option \<times> nat"
where
  "prefixFolders platform normalizedPath entryName [] best = best"
| "prefixFolders platform normalizedPath entryName (dir # rest) (bestMatch, bestLen) =
     (let workspacePath = normalizeFilePath platform dir in
      prefixFolders platform normalizedPath entryName rest
        (if startsWith normalizedPath workspacePath \<and> length workspacePath > bestLen
         then (Some entryName, length workspacePath)
         else (bestMatch, bestLen)))"

fun prefixEntries ::
  "platform \<Rightarrow> jsString \<Rightarrow> workspaceEntry list \<Rightarrow> jsString option \<times> nat \<Rightarrow> jsString option \<times> nat"
where
  "prefixEntries platform normalizedPath [] best = best"
| "prefixEntries platform normalizedPath (entry # rest) best =
     prefixEntries platform normalizedPath rest
       (case workspaceJson entry of
          None \<Rightarrow> best
        | Some workspaceData \<Rightarrow>
            prefixFolders platform normalizedPath (name entry)
              (getWorkspaceFolderPaths workspaceData) best)"

definition getProjectFromFilePath :: "platform \<Rightarrow> jsString \<Rightarrow> workspaceEntry list \<Rightarrow> jsString option" where
  "getProjectFromFilePath platform filePath workspaceEntries =
     fst (prefixEntries platform (normalizeFilePath platform filePath) workspaceEntries (None, 0))"

text \<open>
  The two ways the source takes the last segment of a path:
  \<open>p.split('/').pop() || p.split('\\').pop()\<close> and
  \<open>p.split('/').pop()?.split('\\').pop()\<close>.
\<close>

definition folderNameOr :: "jsString \<Rightarrow> jsString" where
  "folderNameOr p =
     (if splitPop slash p \<noteq> [] then splitPop slash p else splitPop backslash p)"

definition folderNameChain :: "jsString \<Rightarrow> jsString" where
  "folderNameChain p = splitPop backslash (splitPop slash p)"

text \<open>
  \<open>createProjectNameToWorkspaceIdMap\<close> and \<open>createWorkspacePathToIdMap\<close>
  (\<open>tabs/route.ts\<close>, the workspaces route).  A \<open>Record<string, string>\<close> is a map.
\<close>

fun nameFolders :: "jsString \<Rightarrow> jsString list \<Rightarrow> (jsString \<rightharpoonup> jsString) \<Rightarrow> (jsString \<rightharpoonup> jsString)" where
  "nameFolders entryName [] projectNameToWorkspaceId = projectNameToWorkspaceId"
| "nameFolders entryName (dir # rest) projectNameToWorkspaceId =
     (let workspacePath = stripPrefix (js ''file://'') dir;
          folderName = folderNameOr workspacePath in
      nameFolders entryName rest
        (if folderName \<noteq> [] then projectNameToWorkspaceId(folderName \<mapsto> entryName)
         else projectNameToWorkspaceId))"

fun nameEntries :: "workspaceEntry list \<Rightarrow> (jsString \<rightharpoonup> jsString) \<Rightarrow> (jsString \<rightharpoonup> jsString)" where
  "nameEntries [] projectNameToWorkspaceId = projectNameToWorkspaceId"
| "nameEntries (entry # rest) projectNameToWorkspaceId =
     nameEntries rest
       (case workspaceJson entry of
          None \<Rightarrow> projectNameToWorkspaceId
        | Some workspaceData \<Rightarrow>
            nameFolders (name entry) (getWorkspaceFolderPaths workspaceData)
              projectNameToWorkspaceId)"

definition createProjectNameToWorkspaceIdMap :: "workspaceEntry list \<Rightarrow> (jsString \<rightharpoonup> jsString)" where
  "createProjectNameToWorkspaceIdMap workspaceEntries = nameEntries workspaceEntries Map.empty"

fun pathFolders ::
  "platform \<Rightarrow> jsString \<Rightarrow> jsString list \<Rightarrow> (jsString \<rightharpoonup> jsString) \<Rightarrow> (jsString \<rightharpoonup> jsString)"
where
  "pathFolders platform entryName [] out = out"
| "pathFolders platform entryName (dir # rest) out =
     pathFolders platform entryName rest (out(normalizeFilePath platform dir \<mapsto> entryName))"

fun pathEntries :: "platform \<Rightarrow> workspaceEntry list \<Rightarrow> (jsString \<rightharpoonup> jsString) \<Rightarrow> (jsString \<rightharpoonup> jsString)" where
  "pathEntries platform [] out = out"
| "pathEntries platform (entry # rest) out =
     pathEntries platform rest
       (case workspaceJson entry of
          None \<Rightarrow> out
        | Some workspaceData \<Rightarrow>
            pathFolders platform (name entry) (getWorkspaceFolderPaths workspaceData) out)"

definition createWorkspacePathToIdMap :: "platform \<Rightarrow> workspaceEntry list \<Rightarrow> (jsString \<rightharpoonup> jsString)" where
  "createWorkspacePathToIdMap platform workspaceEntries = pathEntries platform workspaceEntries Map.empty"

text \<open>
  The catalog loop of \<open>export.js\<close> (\<open>main\<close>) fills both maps in one pass and takes the
  folder name the other way.
\<close>

fun exportFolders ::
  "platform \<Rightarrow> jsString \<Rightarrow> jsString list \<Rightarrow> (jsString \<rightharpoonup> jsString) \<times> (jsString \<rightharpoonup> jsString) \<Rightarrow>
   (jsString \<rightharpoonup> jsString) \<times> (jsString \<rightharpoonup> jsString)"
where
  "exportFolders platform entryName [] maps = maps"
| "exportFolders platform entryName (dir # rest) (workspacePathToId, projectNameToWorkspaceId) =
     (let norm = normalizeFilePath platform dir;
          fn = folderNameChain (stripPrefix (js ''file://'') dir) in
      exportFolders platform entryName rest
        (workspacePathToId(norm \<mapsto> entryName),
         if fn \<noteq> [] then projectNameToWorkspaceId(fn \<mapsto> entryName)
         else projectNameToWorkspaceId))"

fun exportEntries ::
  "platform \<Rightarrow> workspaceEntry list \<Rightarrow> (jsString \<rightharpoonup> jsString) \<times> (jsString \<rightharpoonup> jsString) \<Rightarrow>
   (jsString \<rightharpoonup> jsString) \<times> (jsString \<rightharpoonup> jsString)"
where
  "exportEntries platform [] maps = maps"
| "exportEntries platform (e # rest) maps =
     exportEntries platform rest
       (case workspaceJson e of
          None \<Rightarrow> maps
        | Some wd \<Rightarrow> exportFolders platform (name e) (getWorkspaceFolderPaths wd) maps)"

definition export_projectNameToWorkspaceId :: "platform \<Rightarrow> workspaceEntry list \<Rightarrow> (jsString \<rightharpoonup> jsString)" where
  "export_projectNameToWorkspaceId platform workspaceEntries =
     snd (exportEntries platform workspaceEntries (Map.empty, Map.empty))"

text \<open>
  Views of the catalog used to state what the lookups return: the normalized roots
  in iteration order, and those of them that are string prefixes of a path.
\<close>

definition workspaceRoots :: "platform \<Rightarrow> workspaceEntry list \<Rightarrow> (jsString \<times> jsString) list" where
  "workspaceRoots platform workspaceEntries =
     concat (map (\<lambda>entry. case workspaceJson entry of
                            None \<Rightarrow> []
                          | Some workspaceData \<Rightarrow>
                              map (\<lambda>dir. (name entry, normalizeFilePath platform dir))
                                (getWorkspaceFolderPaths workspaceData))
                 workspaceEntries)"

definition prefixCandidates :: "platform \<Rightarrow> jsString \<Rightarrow> workspaceEntry list \<Rightarrow> (jsString \<times> jsString) list" where
  "prefixCandidates platform filePath workspaceEntries =
     filter (\<lambda>(w, root). prefix root (normalizeFilePath platform filePath))
       (workspaceRoots platform workspaceEntries)"

text \<open>
  The selection loop the source writes three times (prefix match, declared paths of
  \<open>export.js\<close>, segment heuristic): a candidate replaces the best one only when it is
  strictly longer.
\<close>

fun longestFirst :: "('a \<times> nat) list \<Rightarrow> 'a option \<times> nat \<Rightarrow> 'a option \<times> nat" where
  "longestFirst [] best = best"
| "longestFirst ((x, n) # rest) (bestMatch, bestLen) =
     longestFirst rest (if n > bestLen then (Some x, n) else (bestMatch, bestLen))"

text \<open>Which entries write a folder name into the name index, for either way of taking it.\<close>

definition writesName :: "(jsString \<Rightarrow> jsString) \<Rightarrow> workspaceEntry \<Rightarrow> jsString \<Rightarrow> bool" where
  "writesName lastSegment entry b =
     (case workspaceJson entry of
        None \<Rightarrow> False
      | Some workspaceData \<Rightarrow>
          b \<noteq> [] \<and>
          b \<in> set (map (\<lambda>dir. lastSegment (stripPrefix (js ''file://'') dir))
                     (getWorkspaceFolderPaths workspaceData)))"

section \<open>Conversation records\<close>

text \<open>
  The stored JSON, typed: a field that may be absent is an \<open>option\<close>.  \<open>jsonField\<close> is a
  field the source passes through \<open>JSON.parse\<close> inside a \<open>try\<close>.
\<close>

datatype 'a jsonField = Unparsable | Parsed 'a

datatype richNode =
  RichNode (nodeType: "jsString option") (nodeText: "jsString option")
    (nodeChildren: "richNode list option")

record codeBlock =
  content :: "jsString option"
  language :: "jsString option"

record tokenCount =
  count_inputTokens :: "int option"
  count_outputTokens :: "int option"
  count_cachedTokens :: "int option"

record toolFormerData =
  tfd_name :: "jsString option"
  tfd_params :: "jsString option"
  tfd_rawArgs :: "jsString option"
  tfd_result :: "jsString option"
  tfd_status :: "jsString option"

datatype thinkingField = ThinkingString jsString | ThinkingObject "jsString option"

record bubble =
  rawText :: "jsString option"
  richText :: "richNode list option jsonField option"
  codeBlocks :: "codeBlock list option"
  relevantFiles :: "jsString list"
  attachedFileCodeChunksUris :: "jsString option list"
  fileSelections :: "jsString option list"
  tokenCount :: "tokenCount option"
  toolFormerData :: "toolFormerData option"
  raw_thinking :: "thinkingField option"
  raw_thinkingDurationMs :: "int option"
  percentageRemainingFloat :: "rat option"
  percentageRemaining :: "rat option"
  modelInfo_modelName :: "jsString option"
  raw_toolResults :: "jsString list option"
  raw_cost :: "rat option"
  usageData_cost :: "rat option"
  usageData_estimatedCost :: "rat option"
  createdAt :: "int option"
  timestamp :: "int option"

record conversationHeader =
  bubbleId :: jsString
  headerType :: int

record composerData =
  composerName :: "jsString option"
  newlyCreatedFiles :: "jsString option list"
  codeBlockData :: "jsString list option"
  fullConversationHeadersOnly :: "conversationHeader list"
  lastUpdatedAt :: "int option"
  composerCreatedAt :: "int option"
  composerUsageCost :: "rat option"
  composerUsageEstimatedCost :: "rat option"

section \<open>Attribution resolver\<close>

text \<open>
  The places a conversation names files, in the order the source walks them (twice:
  once to try each path, once to collect them): created files, the keys of
  \<open>codeBlockData\<close> without their first \<open>file://\<close>, and per header the bubble's relevant
  files, attached chunks and file selections.  Empty and missing paths are skipped.
\<close>

definition bubblePaths :: "bubble \<Rightarrow> jsString list" where
  "bubblePaths b =
     filter (\<lambda>p. p \<noteq> []) (relevantFiles b) @
     map the (filter truthy (attachedFileCodeChunksUris b)) @
     map the (filter truthy (fileSelections b))"

fun headerPaths :: "(jsString \<rightharpoonup> bubble) \<Rightarrow> conversationHeader list \<Rightarrow> jsString list" where
  "headerPaths bubbleMap [] = []"
| "headerPaths bubbleMap (h # rest) =
     (case bubbleMap (bubbleId h) of
        None \<Rightarrow> headerPaths bubbleMap rest
      | Some b \<Rightarrow> bubblePaths b @ headerPaths bubbleMap rest)"

definition referencedPaths :: "composerData \<Rightarrow> (jsString \<rightharpoonup> bubble) \<Rightarrow> jsString list" where
  "referencedPaths composerData bubbleMap =
     map the (filter truthy (newlyCreatedFiles composerData)) @
     (case codeBlockData composerData of
        None \<Rightarrow> []
      | Some keys \<Rightarrow> map (replaceFirst (js ''file://'')) keys) @
     headerPaths bubbleMap (fullConversationHeadersOnly composerData)"

text \<open>\<open>const projectId = getProjectFromFilePath(p, ...); if (projectId) return projectId\<close>.\<close>

fun firstProject :: "platform \<Rightarrow> workspaceEntry list \<Rightarrow> jsString list \<Rightarrow> jsString option" where
  "firstProject platform workspaceEntries [] = None"
| "firstProject platform workspaceEntries (p # rest) =
     (let projectId = getProjectFromFilePath platform p workspaceEntries in
      if truthy projectId then projectId else firstProject platform workspaceEntries rest)"

text \<open>The declared root paths of the routes: exact path, else folder name; first hit.\<close>

fun declaredLayouts ::
  "platform \<Rightarrow> (jsString \<rightharpoonup> jsString) \<Rightarrow> (jsString \<rightharpoonup> jsString) \<Rightarrow> jsString list \<Rightarrow> jsString option"
where
  "declaredLayouts platform projectNameToWorkspaceId workspacePathToId [] = None"
| "declaredLayouts platform projectNameToWorkspaceId workspacePathToId (rootPath # rest) =
     (let normalized = normalizeFilePath platform rootPath;
          workspaceId = workspacePathToId normalized;
          workspaceId =
            (if \<not> truthy workspaceId then
               (let folderName = folderNameOr rootPath in
                if folderName \<noteq> []
                then (case projectNameToWorkspaceId folderName of
                        None \<Rightarrow> Some []
                      | Some w \<Rightarrow> Some w)
                else Some [])
             else workspaceId)
      in if truthy workspaceId then workspaceId
         else declaredLayouts platform projectNameToWorkspaceId workspacePathToId rest)"

text \<open>The segment heuristic: the folder names, then the double loop over paths and names.\<close>

fun folderNames :: "jsString \<Rightarrow> jsString list \<Rightarrow> (jsString \<times> jsString) list" where
  "folderNames entryName [] = []"
| "folderNames entryName (dir # rest) =
     (let nm = folderNameChain (stripPrefix (js ''file://'') dir) in
      (if nm \<noteq> [] then [(nm, entryName)] else []) @ folderNames entryName rest)"

fun folderNameToWorkspaceId :: "workspaceEntry list \<Rightarrow> (jsString \<times> jsString) list" where
  "folderNameToWorkspaceId [] = []"
| "folderNameToWorkspaceId (entry # rest) =
     (case workspaceJson entry of
        None \<Rightarrow> []
      | Some workspaceData \<Rightarrow> folderNames (name entry) (getWorkspaceFolderPaths workspaceData)) @
     folderNameToWorkspaceId rest"

definition segmentMatch :: "codeUnit \<Rightarrow> jsString \<Rightarrow> jsString \<Rightarrow> bool" where
  "segmentMatch sep p nm =
     (let needle = [sep] @ nm @ [sep];
          needleEnd = [sep] @ nm
      in includesStr p needle \<or> endsWith p needleEnd)"

fun segmentNames ::
  "codeUnit \<Rightarrow> jsString \<Rightarrow> (jsString \<times> jsString) list \<Rightarrow> jsString option \<times> nat \<Rightarrow> jsString option \<times> nat"
where
  "segmentNames sep p [] best = best"
| "segmentNames sep p ((nm, ident) # rest) (bestId, bestLen) =
     segmentNames sep p rest
       (if segmentMatch sep p nm
        then (if length nm > bestLen then (Some ident, length nm) else (bestId, bestLen))
        else (bestId, bestLen))"

fun segmentPaths ::
  "codeUnit \<Rightarrow> jsString list \<Rightarrow> (jsString \<times> jsString) list \<Rightarrow> jsString option \<times> nat \<Rightarrow> jsString option \<times> nat"
where
  "segmentPaths sep [] names best = best"
| "segmentPaths sep (p # rest) names best =
     segmentPaths sep rest names (segmentNames sep p names best)"

definition segmentHeuristic :: "platform \<Rightarrow> jsString list \<Rightarrow> workspaceEntry list \<Rightarrow> jsString option" where
  "segmentHeuristic platform pathSegments workspaceEntries =
     (let sep = (if win32 platform then backslash else slash);
          bestId = fst (segmentPaths sep pathSegments
                          (folderNameToWorkspaceId workspaceEntries) (None, 0))
      in if truthy bestId then bestId else None)"


text \<open>
  \<open>determineProjectForConversation\<close> of \<open>tabs/route.ts\<close>: declared root paths, then the
  referenced paths one by one, then the segment heuristic.
\<close>

definition determineProjectForConversation_tabs ::
  "platform \<Rightarrow> composerData \<Rightarrow> jsString \<Rightarrow> (jsString \<rightharpoonup> jsString list) \<Rightarrow> (jsString \<rightharpoonup> jsString) \<Rightarrow>
   (jsString \<rightharpoonup> jsString) \<Rightarrow> workspaceEntry list \<Rightarrow> (jsString \<rightharpoonup> bubble) \<Rightarrow> jsString option"
where
  "determineProjectForConversation_tabs platform composerData composerId projectLayoutsMap
       projectNameToWorkspaceId workspacePathToId workspaceEntries bubbleMap =
     (let projectLayouts = (case projectLayoutsMap composerId of None \<Rightarrow> [] | Some l \<Rightarrow> l) in
      case declaredLayouts platform projectNameToWorkspaceId workspacePathToId projectLayouts of
        Some workspaceId \<Rightarrow> Some workspaceId
      | None \<Rightarrow>
          (case firstProject platform workspaceEntries (referencedPaths composerData bubbleMap) of
             Some projectId \<Rightarrow> Some projectId
           | None \<Rightarrow>
               segmentHeuristic platform
                 (map (normalizeFilePath platform) (referencedPaths composerData bubbleMap))
                 workspaceEntries))"

text \<open>
  \<open>determineProjectForConversation\<close> of the workspaces route: the same text behind one
  more test, the definitive map from composer id to workspace id when it is passed.
\<close>

definition determineProjectForConversation ::
  "platform \<Rightarrow> composerData \<Rightarrow> jsString \<Rightarrow> (jsString \<rightharpoonup> jsString list) \<Rightarrow> (jsString \<rightharpoonup> jsString) \<Rightarrow>
   (jsString \<rightharpoonup> jsString) \<Rightarrow> workspaceEntry list \<Rightarrow> (jsString \<rightharpoonup> bubble) \<Rightarrow>
   (jsString \<rightharpoonup> jsString) option \<Rightarrow> jsString option"
where
  "determineProjectForConversation platform composerData composerId projectLayoutsMap
       projectNameToWorkspaceId workspacePathToId workspaceEntries bubbleMap
       composerIdToWorkspaceId =
     (if (case composerIdToWorkspaceId of
            None \<Rightarrow> False
          | Some m \<Rightarrow> truthy (m composerId))
      then the composerIdToWorkspaceId composerId
      else determineProjectForConversation_tabs platform composerData composerId projectLayoutsMap
             projectNameToWorkspaceId workspacePathToId workspaceEntries bubbleMap)"

text \<open>
  The definitive map (workspaces route, \<open>GET\<close>): \<open>allComposers\<close> gives, for a workspace
  id, the composer ids its own database lists (\<open>None\<close> when it has no database, no
  such row, or reading it throws).
\<close>

fun composerIds :: "jsString \<Rightarrow> jsString option list \<Rightarrow> (jsString \<rightharpoonup> jsString) \<Rightarrow> (jsString \<rightharpoonup> jsString)" where
  "composerIds entryName [] composerIdToWorkspaceId = composerIdToWorkspaceId"
| "composerIds entryName (c # rest) composerIdToWorkspaceId =
     composerIds entryName rest
       (if truthy c then composerIdToWorkspaceId(the c \<mapsto> entryName)
        else composerIdToWorkspaceId)"

fun composerIdEntries ::
  "(jsString \<Rightarrow> jsString option list option) \<Rightarrow> workspaceEntry list \<Rightarrow> (jsString \<rightharpoonup> jsString) \<Rightarrow>
   (jsString \<rightharpoonup> jsString)"
where
  "composerIdEntries allComposers [] composerIdToWorkspaceId = composerIdToWorkspaceId"
| "composerIdEntries allComposers (entry # rest) composerIdToWorkspaceId =
     composerIdEntries allComposers rest
       (case allComposers (name entry) of
          None \<Rightarrow> composerIdToWorkspaceId
        | Some cs \<Rightarrow> composerIds (name entry) cs composerIdToWorkspaceId)"

definition buildComposerIdToWorkspaceId ::
  "(jsString \<Rightarrow> jsString option list option) \<Rightarrow> workspaceEntry list \<Rightarrow> (jsString \<rightharpoonup> jsString)"
where
  "buildComposerIdToWorkspaceId allComposers workspaceEntries =
     composerIdEntries allComposers workspaceEntries Map.empty"

text \<open>
  \<open>assignWorkspace\<close> of \<open>export.js\<close>: the declared paths by prefix match, the longest
  normalized one winning, then the segment heuristic; \<open>'global'\<close> when nothing matches.
\<close>

fun layoutMatches :: "platform \<Rightarrow> workspaceEntry list \<Rightarrow> jsString list \<Rightarrow> jsString option \<times> nat \<Rightarrow> jsString option \<times> nat" where
  "layoutMatches platform workspaceEntries [] best = best"
| "layoutMatches platform workspaceEntries (rp # rest) (bestLayout, bestLayoutLen) =
     (let match = getProjectFromFilePath platform rp workspaceEntries in
      layoutMatches platform workspaceEntries rest
        (if truthy match
         then (let norm = normalizeFilePath platform rp in
               if length norm > bestLayoutLen then (match, length norm)
               else (bestLayout, bestLayoutLen))
         else (bestLayout, bestLayoutLen)))"

definition assignWorkspace ::
  "platform \<Rightarrow> composerData \<Rightarrow> jsString \<Rightarrow> (jsString \<rightharpoonup> jsString list) \<Rightarrow> workspaceEntry list \<Rightarrow>
   (jsString \<rightharpoonup> bubble) \<Rightarrow> jsString"
where
  "assignWorkspace platform composerData composerId projectLayoutsMap workspaceEntries bubbleMap =
     (let pl = (case projectLayoutsMap composerId of None \<Rightarrow> [] | Some l \<Rightarrow> l);
          bestLayout = fst (layoutMatches platform workspaceEntries pl (None, 0))
      in if truthy bestLayout then the bestLayout
         else
           (let paths = map (normalizeFilePath platform) (referencedPaths composerData bubbleMap);
                best = segmentHeuristic platform paths workspaceEntries
            in if truthy best then the best else js ''global''))"

text \<open>A workspace with one folder, for the examples.\<close>

definition ws :: "jsString \<Rightarrow> jsString \<Rightarrow> workspaceEntry" where
  "ws ident dir = \<lparr>name = ident, workspaceJson = Some \<lparr>folder = Some dir, folders = None\<rparr>\<rparr>"

text \<open>A conversation record with nothing in it, for the examples.\<close>

definition emptyComposer :: composerData where
  "emptyComposer =
     \<lparr>composerName = None, newlyCreatedFiles = [], codeBlockData = None,
      fullConversationHeadersOnly = [], lastUpdatedAt = None, composerCreatedAt = None,
      composerUsageCost = None, composerUsageEstimatedCost = None\<rparr>"

section \<open>Conversation assembler\<close>

subsection \<open>Text of a bubble\<close>

definition fence :: jsString where
  "fence = js ''```''"

text \<open>
  \<open>s.trim()\<close> strips the white space and the line terminators of ECMAScript: tab, line
  feed, vertical tab, form feed, carriage return, space, no-break space (U+00A0), ogham
  space mark (U+1680), U+2000 to U+200A, line and paragraph separator (U+2028, U+2029),
  narrow no-break space (U+202F), medium mathematical space (U+205F), ideographic space
  (U+3000) and the byte order mark (U+FEFF).
\<close>

definition isSpace :: "codeUnit \<Rightarrow> bool" where
  "isSpace c =
     (c \<in> {0x09, 0x0A, 0x0B, 0x0C, 0x0D, 0x20, 0xA0, 0x1680, 0x2028, 0x2029, 0x202F, 0x205F,
            0x3000, 0xFEFF} \<or>
      (0x2000 \<le> c \<and> c \<le> 0x200A))"

definition trim :: "jsString \<Rightarrow> jsString" where
  "trim s = rev (dropWhile isSpace (rev (dropWhile isSpace s)))"

text \<open>\<open>v || d\<close> for strings, \<open>${v}\<close> in a template, and \<open>xs.join(sep)\<close>.\<close>

definition orElse :: "jsString option \<Rightarrow> jsString \<Rightarrow> jsString" where
  "orElse v d = (if truthy v then the v else d)"

definition shown :: "jsString option \<Rightarrow> jsString" where
  "shown v = (case v of None \<Rightarrow> js ''undefined'' | Some s \<Rightarrow> s)"

fun joinWith :: "jsString \<Rightarrow> jsString list \<Rightarrow> jsString" where
  "joinWith sep [] = []"
| "joinWith sep [x] = x"
| "joinWith sep (x # y # rest) = x @ sep @ joinWith sep (y # rest)"

text \<open>\<open>extractTextFromRichText\<close> and \<open>extractTextFromBubble\<close> (\<open>tabs/route.ts\<close>, \<open>export.js\<close>).\<close>

fun extractTextFromRichText :: "richNode list \<Rightarrow> jsString" where
  "extractTextFromRichText [] = []"
| "extractTextFromRichText (RichNode ty tx ch # rest) =
     (if ty = Some (js ''text'') \<and> truthy tx then the tx
      else
        (case ch of
           None \<Rightarrow> []
         | Some children \<Rightarrow>
             if ty = Some (js ''code'')
             then [newline] @ fence @ [newline] @ extractTextFromRichText children @
                  [newline] @ fence @ [newline]
             else extractTextFromRichText children)) @
     extractTextFromRichText rest"

definition codeBlockText :: "codeBlock \<Rightarrow> jsString" where
  "codeBlockText cb =
     (if truthy (content cb)
      then [newline, newline] @ fence @ orElse (language cb) [] @ [newline] @
           the (content cb) @ [newline] @ fence
      else [])"

definition extractTextFromBubble :: "bubble \<Rightarrow> jsString" where
  "extractTextFromBubble b =
     (let t = (if truthy (rawText b) \<and> trim (the (rawText b)) \<noteq> [] then the (rawText b) else []);
          t = (if t = [] then
                 (case richText b of
                    Some (Parsed (Some children)) \<Rightarrow> extractTextFromRichText children
                  | _ \<Rightarrow> t)
               else t)
      in t @ (case codeBlocks b of
                None \<Rightarrow> []
              | Some cbs \<Rightarrow> concat (map codeBlockText cbs)))"

subsection \<open>Request context attached to a bubble\<close>

record folderListing =
  listing_path :: "jsString option"
  listing_files :: "(jsString option \<times> jsString option) list option"

record cursorRule =
  rule_name :: "jsString option"
  rule_description :: "jsString option"

record summarizedComposer =
  summary_name :: "jsString option"
  summary_composerId :: "jsString option"

record requestContext =
  context_bubbleId :: "jsString option"
  gitStatusRaw :: "jsString option"
  terminalFiles :: "jsString option list option"
  attachedFoldersListDirResults :: "folderListing list option"
  cursorRules :: "cursorRule list option"
  summarizedComposers :: "summarizedComposer list option"

definition folderText :: "folderListing \<Rightarrow> jsString" where
  "folderText f =
     (case listing_files f of
        None \<Rightarrow> []
      | Some fs \<Rightarrow>
          if fs = [] then []
          else [newline, newline] @ js ''**Folder:** '' @ orElse (listing_path f) (js ''Unknown'') @
               concat (map (\<lambda>(nm, ty). [newline] @ js ''- '' @ shown nm @ js '' ('' @ shown ty @ js '')'') fs))"

definition oneContextText :: "requestContext \<Rightarrow> jsString" where
  "oneContextText c =
     (if truthy (gitStatusRaw c)
      then [newline, newline] @ js ''**Git Status:**'' @ [newline] @ fence @ [newline] @
           the (gitStatusRaw c) @ [newline] @ fence
      else []) @
     (case terminalFiles c of
        None \<Rightarrow> []
      | Some fs \<Rightarrow>
          if fs = [] then []
          else [newline, newline] @ js ''**Terminal Files:**'' @
               concat (map (\<lambda>p. [newline] @ js ''- '' @ shown p) fs)) @
     (case attachedFoldersListDirResults c of
        None \<Rightarrow> []
      | Some fs \<Rightarrow>
          if fs = [] then []
          else [newline, newline] @ js ''**Attached Folders:**'' @ concat (map folderText fs)) @
     (case cursorRules c of
        None \<Rightarrow> []
      | Some rs \<Rightarrow>
          if rs = [] then []
          else [newline, newline] @ js ''**Cursor Rules:**'' @
               concat (map (\<lambda>r. [newline] @ js ''- '' @
                              (if truthy (rule_name r) then the (rule_name r)
                               else orElse (rule_description r) (js ''Rule''))) rs)) @
     (case summarizedComposers c of
        None \<Rightarrow> []
      | Some cs \<Rightarrow>
          if cs = [] then []
          else [newline, newline] @ js ''**Related Conversations:**'' @
               concat (map (\<lambda>s. [newline] @ js ''- '' @
                              (if truthy (summary_name s) then the (summary_name s)
                               else orElse (summary_composerId s) (js ''Conversation''))) cs))"

definition contextText :: "requestContext list \<Rightarrow> jsString \<Rightarrow> jsString" where
  "contextText messageContexts bid =
     concat (map oneContextText (filter (\<lambda>c. context_bubbleId c = Some bid) messageContexts))"

subsection \<open>Bubbles\<close>

datatype messageType = User | Ai

record toolCall =
  call_name :: "jsString option"
  call_params :: "jsString option"
  call_result :: "jsString option"
  call_status :: "jsString option"

record bubbleMeta =
  modelName :: "jsString option"
  inputTokens :: "int option"
  outputTokens :: "int option"
  cachedTokens :: "int option"
  toolResultsCount :: "nat option"
  toolResults :: "jsString list option"
  toolCalls :: "toolCall list option"
  thinking :: "jsString option"
  thinkingDurationMs :: "int option"
  responseTimeMs :: "int option"
  cost :: "rat option"
  contextWindowPercent :: "rat option"

record chatBubble =
  bubbleType :: messageType
  bubbleText :: jsString
  bubbleTimestamp :: int
  metadata :: "bubbleMeta option"

text \<open>The empty object \<open>{}\<close> the response-time pass creates when a bubble has no metadata.\<close>

definition noMeta :: bubbleMeta where
  "noMeta =
     \<lparr>modelName = None, inputTokens = None, outputTokens = None, cachedTokens = None,
      toolResultsCount = None, toolResults = None, toolCalls = None, thinking = None,
      thinkingDurationMs = None, responseTimeMs = None, cost = None,
      contextWindowPercent = None\<rparr>"

text \<open>Tool calls and thinking of a stored bubble (\<open>raw\<close> in the source).\<close>

definition bubbleToolCalls :: "bubble \<Rightarrow> toolCall list option" where
  "bubbleToolCalls raw =
     (case toolFormerData raw of
        None \<Rightarrow> None
      | Some tfd \<Rightarrow>
          Some [\<lparr>call_name = tfd_name tfd,
                 call_params = (case tfd_params tfd of
                                  Some p \<Rightarrow> Some p
                                | None \<Rightarrow> if truthy (tfd_rawArgs tfd) then tfd_rawArgs tfd else None),
                 call_result = map_option (take 500) (tfd_result tfd),
                 call_status = tfd_status tfd\<rparr>])"

definition thinkingTruthy :: "bubble \<Rightarrow> bool" where
  "thinkingTruthy raw =
     (case raw_thinking raw of
        None \<Rightarrow> False
      | Some (ThinkingString s) \<Rightarrow> s \<noteq> []
      | Some (ThinkingObject t) \<Rightarrow> True)"

definition bubbleThinking :: "bubble \<Rightarrow> jsString option" where
  "bubbleThinking raw =
     (case raw_thinking raw of
        None \<Rightarrow> None
      | Some (ThinkingString s) \<Rightarrow> if s \<noteq> [] then Some s else None
      | Some (ThinkingObject t) \<Rightarrow> t)"

definition fullText :: "requestContext list \<Rightarrow> conversationHeader \<Rightarrow> bubble \<Rightarrow> jsString" where
  "fullText messageContexts h b = extractTextFromBubble b @ contextText messageContexts (bubbleId h)"

text \<open>\<open>const hasContent = fullText.trim() || toolCalls || thinking\<close>.\<close>

definition hasContent :: "requestContext list \<Rightarrow> conversationHeader \<Rightarrow> bubble \<Rightarrow> bool" where
  "hasContent messageContexts h b =
     (trim (fullText messageContexts h b) \<noteq> [] \<or> bubbleToolCalls b \<noteq> None \<or>
      truthy (bubbleThinking b))"

definition displayText :: "requestContext list \<Rightarrow> conversationHeader \<Rightarrow> bubble \<Rightarrow> jsString" where
  "displayText messageContexts h b =
     (let d = trim (fullText messageContexts h b);
          d = (if d = [] then
                 (case bubbleToolCalls b of
                    Some (tc # _) \<Rightarrow>
                      js ''**Tool: '' @ orElse (call_name tc) (js ''unknown'') @ js ''**'' @
                      (if truthy (call_status tc) then js '' ('' @ the (call_status tc) @ js '')'' else [])
                  | _ \<Rightarrow> d)
               else d);
          d = (if d = [] \<and> truthy (bubbleThinking b)
               then take 200 (the (bubbleThinking b)) @
                    (if length (the (bubbleThinking b)) > 200 then js ''...'' else [])
               else d)
      in d)"

definition mkBubbleMeta :: "bubble \<Rightarrow> bubbleMeta" where
  "mkBubbleMeta raw =
     \<lparr>modelName = modelInfo_modelName raw,
      inputTokens = (case tokenCount raw of None \<Rightarrow> None | Some t \<Rightarrow> count_inputTokens t),
      outputTokens = (case tokenCount raw of None \<Rightarrow> None | Some t \<Rightarrow> count_outputTokens t),
      cachedTokens = (case tokenCount raw of None \<Rightarrow> None | Some t \<Rightarrow> count_cachedTokens t),
      toolResultsCount = (case bubbleToolCalls raw of
                            Some tcs \<Rightarrow> Some (length tcs)
                          | None \<Rightarrow> map_option length (raw_toolResults raw)),
      toolResults = (case raw_toolResults raw of
                       Some rs \<Rightarrow> if rs \<noteq> [] then Some rs else None
                     | None \<Rightarrow> None),
      toolCalls = bubbleToolCalls raw,
      thinking = (if thinkingTruthy raw then bubbleThinking raw else None),
      thinkingDurationMs = (if thinkingTruthy raw then raw_thinkingDurationMs raw else None),
      responseTimeMs = None,
      cost = (case raw_cost raw of
                Some c \<Rightarrow> Some c
              | None \<Rightarrow> (case usageData_cost raw of
                           Some c \<Rightarrow> Some c
                         | None \<Rightarrow> usageData_estimatedCost raw)),
      contextWindowPercent = (case percentageRemainingFloat raw of
                                Some p \<Rightarrow> Some p
                              | None \<Rightarrow> percentageRemaining raw)\<rparr>"

text \<open>
  \<open>hasMeta\<close>: the first field of the \<open>??\<close> chain that is not null decides, by its
  truthiness; the chain ends in \<open>cost != null\<close>.
\<close>

definition hasMeta :: "bubbleMeta \<Rightarrow> bool" where
  "hasMeta m =
     (case modelName m of Some s \<Rightarrow> s \<noteq> [] | None \<Rightarrow>
      case inputTokens m of Some n \<Rightarrow> n \<noteq> 0 | None \<Rightarrow>
      case outputTokens m of Some n \<Rightarrow> n \<noteq> 0 | None \<Rightarrow>
      case cachedTokens m of Some n \<Rightarrow> n \<noteq> 0 | None \<Rightarrow>
      case toolResultsCount m of Some n \<Rightarrow> n \<noteq> 0 | None \<Rightarrow>
      case toolCalls m of Some tcs \<Rightarrow> True | None \<Rightarrow>
      case thinking m of Some s \<Rightarrow> s \<noteq> [] | None \<Rightarrow>
      cost m \<noteq> None)"

text \<open>
  \<open>Date.now()\<close> is a reading of the clock: \<open>clock n\<close> is what the \<open>n\<close>-th reading gives,
  and the number of readings so far is threaded through the loops.
  \<open>bubble.createdAt || bubble.timestamp || Date.now()\<close> reads it only when both stored
  values are missing or 0.
\<close>

definition bubbleTime :: "(nat \<Rightarrow> int) \<Rightarrow> nat \<Rightarrow> bubble \<Rightarrow> int \<times> nat" where
  "bubbleTime clock n b =
     (if truthyNum (createdAt b) then (the (createdAt b), n)
      else if truthyNum (timestamp b) then (the (timestamp b), n)
      else (clock n, Suc n))"

definition mkBubble ::
  "requestContext list \<Rightarrow> conversationHeader \<Rightarrow> bubble \<Rightarrow> int \<Rightarrow> chatBubble"
where
  "mkBubble messageContexts h b ts =
     (let messageType = (if headerType h = 1 then User else Ai);
          bubbleMeta = (if messageType = Ai then Some (mkBubbleMeta b) else None)
      in \<lparr>bubbleType = messageType,
          bubbleText = displayText messageContexts h b,
          bubbleTimestamp = ts,
          metadata = (case bubbleMeta of
                        None \<Rightarrow> None
                      | Some m \<Rightarrow> if hasMeta m then Some m else None)\<rparr>)"

text \<open>The loop over the headers of \<open>GET\<close> (\<open>tabs/route.ts\<close>): \<open>bubbles.push\<close> for every
  header whose bubble is stored and has content.\<close>

fun buildBubbles ::
  "(nat \<Rightarrow> int) \<Rightarrow> (jsString \<rightharpoonup> bubble) \<Rightarrow> requestContext list \<Rightarrow> conversationHeader list \<Rightarrow>
   chatBubble list \<times> nat \<Rightarrow> chatBubble list \<times> nat"
where
  "buildBubbles clock bubbleMap messageContexts [] st = st"
| "buildBubbles clock bubbleMap messageContexts (h # rest) (bubbles, n) =
     buildBubbles clock bubbleMap messageContexts rest
       (case bubbleMap (bubbleId h) of
          None \<Rightarrow> (bubbles, n)
        | Some b \<Rightarrow>
            if hasContent messageContexts h b
            then (let (ts, n') = bubbleTime clock n b
                  in (bubbles @ [mkBubble messageContexts h b ts], n'))
            else (bubbles, n))"

subsection \<open>Code-edit diffs\<close>

record modelDiff =
  modified :: "jsString list option"

record toolParams =
  param_command :: "jsString option"
  param_target_file :: "jsString option"
  param_query :: "jsString option"
  param_instructions :: "jsString option"

record foundFile =
  found_name :: "jsString option"
  found_path :: "jsString option"
  found_type :: "jsString option"

record searchResult =
  result_file :: "jsString option"
  result_content :: "jsString option"

record toolResult =
  result_output :: "jsString option"
  result_contents :: "jsString option"
  result_exitCodeV2 :: "jsString option"
  result_files :: "foundFile list option"
  result_results :: "searchResult list option"

record codeBlockDiff =
  newModelDiffWrtV0 :: "modelDiff list option"
  action_filePath :: "jsString option"
  action_command :: "jsString option"
  searchResults :: "jsString option"
  webResults :: "jsString option"
  toolName :: "jsString option"
  parameters :: "toolParams jsonField option"
  action_result :: "toolResult jsonField option"
  actionsTaken :: "jsString list option"
  filesModified :: "jsString list option"
  gitStatus :: "jsString option"
  directoryListed :: "jsString option"
  webSearchResults :: "jsString option list option"

text \<open>\<open>formatToolAction\<close> (\<open>tabs/route.ts\<close>), block by block.\<close>

definition fenced :: "jsString \<Rightarrow> jsString" where
  "fenced s = fence @ [newline] @ s @ [newline] @ fence"

definition labelled :: "jsString \<Rightarrow> jsString option \<Rightarrow> jsString" where
  "labelled label v = (if truthy v then label @ the v else [])"

definition paramsText :: "toolParams jsonField option \<Rightarrow> jsString" where
  "paramsText p =
     (case p of
        Some (Parsed params) \<Rightarrow>
          (if truthy (param_command params)
           then [newline] @ js ''**Command:** `'' @ the (param_command params) @ js ''`'' else []) @
          labelled ([newline] @ js ''**File:** '') (param_target_file params) @
          labelled ([newline] @ js ''**Query:** '') (param_query params) @
          labelled ([newline] @ js ''**Instructions:** '') (param_instructions params)
      | _ \<Rightarrow> [])"

definition resultText :: "toolResult jsonField option \<Rightarrow> jsString" where
  "resultText r =
     (case r of
        Some (Parsed resultData) \<Rightarrow>
          (if truthy (result_output resultData)
           then [newline, newline] @ js ''**Output:**'' @ [newline] @
                fenced (the (result_output resultData)) else []) @
          (if truthy (result_contents resultData)
           then [newline, newline] @ js ''**File Contents:**'' @ [newline] @
                fenced (the (result_contents resultData)) else []) @
          (case result_exitCodeV2 resultData of
             None \<Rightarrow> []
           | Some c \<Rightarrow> [newline, newline] @ js ''**Exit Code:** '' @ c) @
          (case result_files resultData of
             None \<Rightarrow> []
           | Some fs \<Rightarrow>
               if fs = [] then []
               else [newline, newline] @ js ''**Files Found:**'' @
                    concat (map (\<lambda>f. [newline] @ js ''- '' @
                                   (if truthy (found_name f) then the (found_name f)
                                    else shown (found_path f)) @
                                   js '' ('' @ orElse (found_type f) (js ''file'') @ js '')'') fs)) @
          (case result_results resultData of
             None \<Rightarrow> []
           | Some rs \<Rightarrow>
               if rs = [] then []
               else [newline, newline] @ js ''**Results:**'' @
                    concat (map (\<lambda>s. if truthy (result_file s) \<and> truthy (result_content s)
                                      then [newline, newline] @ js ''**File:** '' @ the (result_file s) @
                                           [newline] @ fenced (the (result_content s))
                                      else []) rs))
      | _ \<Rightarrow> [])"

definition formatToolAction :: "codeBlockDiff \<Rightarrow> jsString" where
  "formatToolAction action =
     (case newModelDiffWrtV0 action of
        None \<Rightarrow> []
      | Some ds \<Rightarrow>
          concat (map (\<lambda>d. case modified d of
                              None \<Rightarrow> []
                            | Some ls \<Rightarrow>
                                if ls = [] then []
                                else [newline, newline] @ js ''**Code Changes:**'' @ [newline] @
                                     fenced (joinWith [newline] ls)) ds)) @
     labelled ([newline, newline] @ js ''**File:** '') (action_filePath action) @
     (if truthy (action_command action)
      then [newline, newline] @ js ''**Command:** `'' @ the (action_command action) @ js ''`'' else []) @
     labelled ([newline, newline] @ js ''**Search Results:**'' @ [newline]) (searchResults action) @
     labelled ([newline, newline] @ js ''**Web Search:**'' @ [newline]) (webResults action) @
     (if truthy (toolName action)
      then [newline, newline] @ js ''**Tool Action:** '' @ the (toolName action) @
           paramsText (parameters action) @ resultText (action_result action)
      else []) @
     (case actionsTaken action of
        None \<Rightarrow> []
      | Some as \<Rightarrow>
          if as = [] then []
          else [newline, newline] @ js ''**Actions Taken:** '' @ joinWith (js '', '') as) @
     (case filesModified action of
        None \<Rightarrow> []
      | Some fs \<Rightarrow>
          if fs = [] then []
          else [newline, newline] @ js ''**Files Modified:**'' @
               concat (map (\<lambda>f. [newline] @ js ''- '' @ f) fs)) @
     (if truthy (gitStatus action)
      then [newline, newline] @ js ''**Git Status:**'' @ [newline] @ fenced (the (gitStatus action))
      else []) @
     labelled ([newline, newline] @ js ''**Directory Listed:** '') (directoryListed action) @
     (case webSearchResults action of
        None \<Rightarrow> []
      | Some rs \<Rightarrow>
          [newline, newline] @ js ''**Web Search Results:**'' @
          concat (map (\<lambda>t. labelled ([newline] @ js ''- '') t) rs))"

text \<open>The loop that appends one synthetic assistant bubble per diff with text, stamped
  with the clock.\<close>

fun diffBubbles ::
  "(nat \<Rightarrow> int) \<Rightarrow> codeBlockDiff list \<Rightarrow> chatBubble list \<times> nat \<Rightarrow> chatBubble list \<times> nat"
where
  "diffBubbles clock [] st = st"
| "diffBubbles clock (d # rest) (bubbles, n) =
     (let diffText = formatToolAction d in
      diffBubbles clock rest
        (if trim diffText \<noteq> []
         then (bubbles @ [\<lparr>bubbleType = Ai, bubbleText = js ''**Tool Action:**'' @ diffText,
                           bubbleTimestamp = clock n, metadata = None\<rparr>], Suc n)
         else (bubbles, n)))"

subsection \<open>Response times and totals\<close>

text \<open>
  The pass over the sorted bubbles: \<open>lastUserTimestamp\<close> is the state.  The test
  \<open>b.timestamp != null\<close> of the source has no branch here: every bubble pushed by the
  two loops before has a number as its timestamp.
\<close>

fun responseTimes :: "int option \<Rightarrow> chatBubble list \<Rightarrow> chatBubble list" where
  "responseTimes lastUserTimestamp [] = []"
| "responseTimes lastUserTimestamp (b # rest) =
     (if bubbleType b = User
      then b # responseTimes (Some (bubbleTimestamp b)) rest
      else
        (case lastUserTimestamp of
           None \<Rightarrow> b # responseTimes lastUserTimestamp rest
         | Some l \<Rightarrow>
             if bubbleTimestamp b > l
             then b\<lparr>metadata :=
                      Some ((case metadata b of None \<Rightarrow> noMeta | Some m \<Rightarrow> m)
                              \<lparr>responseTimeMs := Some (bubbleTimestamp b - l)\<rparr>)\<rparr>
                  # responseTimes lastUserTimestamp rest
             else b # responseTimes lastUserTimestamp rest))"

definition metaField :: "(bubbleMeta \<Rightarrow> 'a option) \<Rightarrow> chatBubble \<Rightarrow> 'a option" where
  "metaField f b = (case metadata b of None \<Rightarrow> None | Some m \<Rightarrow> f m)"

definition total :: "(bubbleMeta \<Rightarrow> 'a::comm_monoid_add option) \<Rightarrow> chatBubble list \<Rightarrow> 'a" where
  "total f bubbles =
     sum_list (map (\<lambda>b. case metaField f b of None \<Rightarrow> 0 | Some v \<Rightarrow> v) bubbles)"

text \<open>\<open>Array.from(new Set(...))\<close>: the distinct values in the order of first insertion.\<close>

definition distinctFirst :: "'a list \<Rightarrow> 'a list" where
  "distinctFirst xs = rev (remdups (rev xs))"

record tabMetadata =
  totalInputTokens :: "int option"
  totalOutputTokens :: "int option"
  totalCachedTokens :: "int option"
  modelsUsed :: "jsString list option"
  totalResponseTimeMs :: "int option"
  totalCost :: "rat option"
  totalToolCalls :: "nat option"
  totalThinkingDurationMs :: "int option"

definition mkTabMetadata :: "composerData \<Rightarrow> chatBubble list \<Rightarrow> tabMetadata option" where
  "mkTabMetadata composerData bubbles =
     (let totalInput = total inputTokens bubbles;
          totalOutput = total outputTokens bubbles;
          totalCached = total cachedTokens bubbles;
          totalResponse = total responseTimeMs bubbles;
          totalCost0 = total cost bubbles;
          models = distinctFirst
                     (map the (filter truthy (map (metaField modelName) bubbles)));
          totalCalls = total (\<lambda>m. map_option length (toolCalls m)) bubbles;
          totalThinking = total thinkingDurationMs bubbles;
          composerCost = (case composerUsageCost composerData of
                            Some c \<Rightarrow> Some c
                          | None \<Rightarrow> composerUsageEstimatedCost composerData);
          totalCost1 = (case composerCost of
                          Some c \<Rightarrow> if totalCost0 = 0 then c else totalCost0
                        | None \<Rightarrow> totalCost0)
      in if totalInput > 0 \<or> totalOutput > 0 \<or> totalCached > 0 \<or> totalResponse > 0 \<or>
            totalCost1 > 0 \<or> models \<noteq> [] \<or> totalCalls > 0 \<or> totalThinking > 0
         then Some \<lparr>totalInputTokens = (if totalInput = 0 then None else Some totalInput),
                     totalOutputTokens = (if totalOutput = 0 then None else Some totalOutput),
                     totalCachedTokens = (if totalCached = 0 then None else Some totalCached),
                     modelsUsed = (if models \<noteq> [] then Some models else None),
                     totalResponseTimeMs = (if totalResponse = 0 then None else Some totalResponse),
                     totalCost = (if totalCost1 > 0 then Some totalCost1 else None),
                     totalToolCalls = (if totalCalls = 0 then None else Some totalCalls),
                     totalThinkingDurationMs =
                       (if totalThinking = 0 then None else Some totalThinking)\<rparr>
         else None)"

subsection \<open>One conversation, and the response of the tabs route\<close>

record chatTab =
  tabId :: jsString
  title :: jsString
  tabTimestamp :: "int option"
  tabBubbles :: "chatBubble list"
  codeBlockDiffs :: "codeBlockDiff list"
  tabMeta :: "tabMetadata option"

definition mkTitle :: "composerData \<Rightarrow> jsString \<Rightarrow> chatBubble list \<Rightarrow> jsString" where
  "mkTitle composerData composerId bubbles =
     (if truthy (composerName composerData) then the (composerName composerData)
      else
        (let fallback = js ''Conversation '' @ take 8 composerId;
             firstLines = (case bubbles of
                             [] \<Rightarrow> []
                           | b # _ \<Rightarrow> filter (\<lambda>line. trim line \<noteq> []) (split newline (bubbleText b)))
         in case firstLines of
              [] \<Rightarrow> fallback
            | l # _ \<Rightarrow> (let t = take 100 l in if length t = 100 then t @ js ''...'' else t)))"

text \<open>
  The body of the loop of \<open>GET\<close> for a conversation of the requested workspace: the
  bubbles of the headers; when there is at least one, the diff bubbles, the stable sort
  by timestamp, the response times and the totals.  \<open>None\<close>: no tab is pushed.
\<close>

definition assembleTab ::
  "(nat \<Rightarrow> int) \<Rightarrow> nat \<Rightarrow> jsString \<Rightarrow> composerData \<Rightarrow> (jsString \<rightharpoonup> bubble) \<Rightarrow>
   (jsString \<rightharpoonup> requestContext list) \<Rightarrow> (jsString \<rightharpoonup> codeBlockDiff list) \<Rightarrow> chatTab option \<times> nat"
where
  "assembleTab clock n composerId composerData bubbleMap messageRequestContextMap codeBlockDiffMap =
     (let messageContexts = (case messageRequestContextMap composerId of None \<Rightarrow> [] | Some cs \<Rightarrow> cs);
          (built, n1) = buildBubbles clock bubbleMap messageContexts
                          (fullConversationHeadersOnly composerData) ([], n)
      in if built \<noteq> [] then
           (let tabTitle = mkTitle composerData composerId built;
                diffList = (case codeBlockDiffMap composerId of None \<Rightarrow> [] | Some ds \<Rightarrow> ds);
                (withDiffs, n2) = diffBubbles clock diffList (built, n1);
                sorted = sort_key bubbleTimestamp withDiffs;
                timed = responseTimes None sorted
            in (Some \<lparr>tabId = composerId, title = tabTitle,
                       tabTimestamp = (if truthyNum (lastUpdatedAt composerData)
                                       then lastUpdatedAt composerData
                                       else composerCreatedAt composerData),
                       tabBubbles = timed, codeBlockDiffs = diffList,
                       tabMeta = mkTabMetadata composerData timed\<rparr>, n2))
         else (None, n1))"

text \<open>
  The loop of \<open>GET\<close> over the stored conversations.  A row is the composer id and the
  parsed record, \<open>None\<close> when \<open>JSON.parse\<close> throws (the row is then skipped).  Only the
  conversations attributed to the requested workspace, \<open>'global'\<close> standing for none,
  are assembled.
\<close>

fun tabsLoop ::
  "platform \<Rightarrow> (nat \<Rightarrow> int) \<Rightarrow> jsString \<Rightarrow> workspaceEntry list \<Rightarrow> (jsString \<rightharpoonup> jsString list) \<Rightarrow>
   (jsString \<rightharpoonup> bubble) \<Rightarrow> (jsString \<rightharpoonup> requestContext list) \<Rightarrow> (jsString \<rightharpoonup> codeBlockDiff list) \<Rightarrow>
   (jsString \<times> composerData option) list \<Rightarrow> chatTab list \<times> nat \<Rightarrow> chatTab list \<times> nat"
where
  "tabsLoop platform clock paramsId workspaceEntries projectLayoutsMap bubbleMap
     messageRequestContextMap codeBlockDiffMap [] st = st"
| "tabsLoop platform clock paramsId workspaceEntries projectLayoutsMap bubbleMap
     messageRequestContextMap codeBlockDiffMap ((composerId, row) # rest) (tabs, n) =
     tabsLoop platform clock paramsId workspaceEntries projectLayoutsMap bubbleMap
       messageRequestContextMap codeBlockDiffMap rest
       (case row of
          None \<Rightarrow> (tabs, n)
        | Some composerData \<Rightarrow>
            (let projectId = determineProjectForConversation_tabs platform composerData composerId
                               projectLayoutsMap
                               (createProjectNameToWorkspaceIdMap workspaceEntries)
                               (createWorkspacePathToIdMap platform workspaceEntries)
                               workspaceEntries bubbleMap;
                 assignedProjectId = (case projectId of None \<Rightarrow> js ''global'' | Some w \<Rightarrow> w)
             in if assignedProjectId \<noteq> paramsId then (tabs, n)
                else
                  (case assembleTab clock n composerId composerData bubbleMap
                          messageRequestContextMap codeBlockDiffMap of
                     (None, n') \<Rightarrow> (tabs, n')
                   | (Some tab, n') \<Rightarrow> (tabs @ [tab], n'))))"

definition GET_tabs ::
  "platform \<Rightarrow> (nat \<Rightarrow> int) \<Rightarrow> jsString \<Rightarrow> workspaceEntry list \<Rightarrow> (jsString \<rightharpoonup> jsString list) \<Rightarrow>
   (jsString \<rightharpoonup> bubble) \<Rightarrow> (jsString \<rightharpoonup> requestContext list) \<Rightarrow> (jsString \<rightharpoonup> codeBlockDiff list) \<Rightarrow>
   (jsString \<times> composerData option) list \<Rightarrow> chatTab list"
where
  "GET_tabs platform clock paramsId workspaceEntries projectLayoutsMap bubbleMap
     messageRequestContextMap codeBlockDiffMap composerRows =
     fst (tabsLoop platform clock paramsId workspaceEntries projectLayoutsMap bubbleMap
            messageRequestContextMap codeBlockDiffMap composerRows ([], 0))"

text \<open>The filter of \<open>export.js\<close> (\<open>main\<close>): \<open>!text.trim() && !hasToolData && !hasThinking\<close>
  skips the bubble.\<close>

definition export_keeps :: "bubble \<Rightarrow> bool" where
  "export_keeps b =
     (\<not> (trim (extractTextFromBubble b) = [] \<and> toolFormerData b = None \<and> \<not> thinkingTruthy b))"

text \<open>
  The bubbles of \<open>export.js\<close> (\<open>main\<close>): the loop over the headers, the loop over the
  code-edit diffs and the sort.  A kept bubble with blank text and a tool invocation
  shows the name of the tool.  \<open>JSON.stringify\<close> is an argument.
\<close>

record exportBubble =
  export_type :: messageType
  export_text :: jsString
  export_timestamp :: int
  export_toolCalls :: "toolCall list option"
  export_thinking :: "jsString option"

definition exportText :: "bubble \<Rightarrow> jsString" where
  "exportText b =
     (let t = extractTextFromBubble b in
      case toolFormerData b of
        Some tfd \<Rightarrow>
          if trim t = [] then js ''**Tool: '' @ orElse (tfd_name tfd) (js ''unknown'') @ js ''**''
          else t
      | None \<Rightarrow> t)"

fun export_headers ::
  "(nat \<Rightarrow> int) \<Rightarrow> (jsString \<rightharpoonup> bubble) \<Rightarrow> conversationHeader list \<Rightarrow>
   exportBubble list \<times> nat \<Rightarrow> exportBubble list \<times> nat"
where
  "export_headers clock bubbleMap [] st = st"
| "export_headers clock bubbleMap (h # rest) (bubbles, n) =
     export_headers clock bubbleMap rest
       (case bubbleMap (bubbleId h) of
          None \<Rightarrow> (bubbles, n)
        | Some b \<Rightarrow>
            if export_keeps b
            then (let (ts, n') = bubbleTime clock n b
                  in (bubbles @
                        [\<lparr>export_type = (if headerType h = 1 then User else Ai),
                          export_text = exportText b, export_timestamp = ts,
                          export_toolCalls = bubbleToolCalls b,
                          export_thinking =
                            (if thinkingTruthy b then bubbleThinking b else None)\<rparr>], n'))
            else (bubbles, n))"

text \<open>\<open>composerData.lastUpdatedAt || composerData.createdAt || Date.now()\<close>.\<close>

definition composerTime :: "(nat \<Rightarrow> int) \<Rightarrow> nat \<Rightarrow> composerData \<Rightarrow> int \<times> nat" where
  "composerTime clock n composerData =
     (if truthyNum (lastUpdatedAt composerData) then (the (lastUpdatedAt composerData), n)
      else if truthyNum (composerCreatedAt composerData)
      then (the (composerCreatedAt composerData), n)
      else (clock n, Suc n))"

fun export_diffs ::
  "(nat \<Rightarrow> int) \<Rightarrow> (codeBlockDiff \<Rightarrow> jsString) \<Rightarrow> composerData \<Rightarrow> codeBlockDiff list \<Rightarrow>
   exportBubble list \<times> nat \<Rightarrow> exportBubble list \<times> nat"
where
  "export_diffs clock stringify composerData [] st = st"
| "export_diffs clock stringify composerData (d # rest) (bubbles, n) =
     (let (ts, n') = composerTime clock n composerData in
      export_diffs clock stringify composerData rest
        (bubbles @
           [\<lparr>export_type = Ai, export_text = js ''**Code edit:** '' @ take 500 (stringify d),
             export_timestamp = ts, export_toolCalls = None, export_thinking = None\<rparr>], n'))"

definition export_bubbles ::
  "(nat \<Rightarrow> int) \<Rightarrow> nat \<Rightarrow> (codeBlockDiff \<Rightarrow> jsString) \<Rightarrow> jsString \<Rightarrow> composerData \<Rightarrow>
   (jsString \<rightharpoonup> bubble) \<Rightarrow> (jsString \<rightharpoonup> codeBlockDiff list) \<Rightarrow> exportBubble list \<times> nat"
where
  "export_bubbles clock n stringify composerId composerData bubbleMap codeBlockDiffMap =
     (let (kept, n1) = export_headers clock bubbleMap
                         (fullConversationHeadersOnly composerData) ([], n);
          diffList = (case codeBlockDiffMap composerId of None \<Rightarrow> [] | Some ds \<Rightarrow> ds);
          (withDiffs, n2) = export_diffs clock stringify composerData diffList (kept, n1)
      in (sort_key export_timestamp withDiffs, n2))"

text \<open>A stored bubble with no field set, for the examples.\<close>

definition emptyBubble :: bubble where
  "emptyBubble =
     \<lparr>rawText = None, richText = None, codeBlocks = None, relevantFiles = [],
      attachedFileCodeChunksUris = [], fileSelections = [], tokenCount = None,
      toolFormerData = None, raw_thinking = None, raw_thinkingDurationMs = None,
      percentageRemainingFloat = None, percentageRemaining = None,
      modelInfo_modelName = None, raw_toolResults = None, raw_cost = None,
      usageData_cost = None, usageData_estimatedCost = None, createdAt = None,
      timestamp = None\<rparr>"

definition emptyContext :: requestContext where
  "emptyContext =
     \<lparr>context_bubbleId = None, gitStatusRaw = None, terminalFiles = None,
      attachedFoldersListDirResults = None, cursorRules = None, summarizedComposers = None\<rparr>"



text \<open>Views of a conversation used to state what the assembler returns: the stored
  bubbles of the headers in order, the role of a header, the response time a bubble
  carries, and the timestamp of the last user bubble of a list.\<close>

definition headerBubbles ::
  "(jsString \<rightharpoonup> bubble) \<Rightarrow> conversationHeader list \<Rightarrow> (conversationHeader \<times> bubble) list"
where
  "headerBubbles bubbleMap headers =
     concat (map (\<lambda>h. case bubbleMap (bubbleId h) of None \<Rightarrow> [] | Some b \<Rightarrow> [(h, b)]) headers)"

definition roleOf :: "conversationHeader \<Rightarrow> messageType" where
  "roleOf h = (if headerType h = 1 then User else Ai)"

definition responseTimeOf :: "chatBubble \<Rightarrow> int option" where
  "responseTimeOf b = metaField responseTimeMs b"

definition precedingUser :: "chatBubble list \<Rightarrow> int option" where
  "precedingUser bs =
     (case filter (\<lambda>b. bubbleType b = User) bs of
        [] \<Rightarrow> None
      | u # us \<Rightarrow> Some (bubbleTimestamp (last (u # us))))"

definition contextsOf :: "(jsString \<rightharpoonup> requestContext list) \<Rightarrow> jsString \<Rightarrow> requestContext list" where
  "contextsOf messageRequestContextMap composerId =
     (case messageRequestContextMap composerId of None \<Rightarrow> [] | Some cs \<Rightarrow> cs)"

definition diffsOf :: "(jsString \<rightharpoonup> codeBlockDiff list) \<Rightarrow> jsString \<Rightarrow> codeBlockDiff list" where
  "diffsOf codeBlockDiffMap composerId =
     (case codeBlockDiffMap composerId of None \<Rightarrow> [] | Some ds \<Rightarrow> ds)"


text \<open>Small conversations for the examples: a header, a bubble with text and an
  optional \<open>createdAt\<close>, a record with the given headers and nothing else.\<close>

definition hdr :: "jsString \<Rightarrow> int \<Rightarrow> conversationHeader" where
  "hdr i t = \<lparr>bubbleId = i, headerType = t\<rparr>"

definition textBubble :: "jsString \<Rightarrow> int option \<Rightarrow> bubble" where
  "textBubble s t = emptyBubble\<lparr>rawText := Some s, createdAt := t\<rparr>"

definition conversation :: "conversationHeader list \<Rightarrow> composerData" where
  "conversation hs = emptyComposer\<lparr>fullConversationHeadersOnly := hs\<rparr>"

text \<open>A bubble that is only a tool invocation, and one that is only a reasoning trace.\<close>

definition toolBubble :: "jsString \<Rightarrow> int option \<Rightarrow> bubble" where
  "toolBubble nm t =
     emptyBubble\<lparr>toolFormerData := Some \<lparr>tfd_name = Some nm, tfd_params = None, tfd_rawArgs = None,
                                          tfd_result = None, tfd_status = None\<rparr>,
                 createdAt := t\<rparr>"

definition thinkingBubble :: "jsString \<Rightarrow> int option \<Rightarrow> bubble" where
  "thinkingBubble s t = emptyBubble\<lparr>raw_thinking := Some (ThinkingString s), createdAt := t\<rparr>"

section \<open>Normalization: one pass does not always reach a fixed point\<close>














section \<open>The selection loop\<close>

lemma longestFirst_append:
  "longestFirst (xs @ ys) best = longestFirst ys (longestFirst xs best)"
  by (induction xs best rule: longestFirst.induct) auto

lemma longestFirst_cases:
  "longestFirst xs (b, bl) = (b', bl') \<Longrightarrow>
     (b' = b \<and> bl' = bl \<and> (\<forall>(y, m) \<in> set xs. m \<le> bl)) \<or>
     (\<exists>pre x post. xs = pre @ (x, bl') # post \<and> b' = Some x \<and> bl < bl' \<and>
        (\<forall>(y, m) \<in> set pre. m < bl') \<and> (\<forall>(y, m) \<in> set post. m \<le> bl'))"
proof (induction xs arbitrary: b bl)
  case Nil
  then show ?case by simp
next
  case (Cons a xs)
  obtain x n where a: "a = (x, n)" by (cases a)
  show ?case
  proof (cases "n > bl")
    case True
    with Cons.prems a have r: "longestFirst xs (Some x, n) = (b', bl')" by simp
    from Cons.IH [OF r] show ?thesis
    proof (elim disjE conjE exE)
      assume "b' = Some x" "bl' = n" "\<forall>(y, m) \<in> set xs. m \<le> n"
      then have "a # xs = [] @ (x, bl') # xs \<and> b' = Some x \<and> bl < bl' \<and>
        (\<forall>(y, m) \<in> set []. m < bl') \<and> (\<forall>(y, m) \<in> set xs. m \<le> bl')"
        using a True by simp
      then show ?thesis by blast
    next
      fix pre x' post
      assume h: "xs = pre @ (x', bl') # post" "b' = Some x'" "n < bl'"
        "\<forall>(y, m) \<in> set pre. m < bl'" "\<forall>(y, m) \<in> set post. m \<le> bl'"
      then have "a # xs = (a # pre) @ (x', bl') # post \<and> b' = Some x' \<and> bl < bl' \<and>
        (\<forall>(y, m) \<in> set (a # pre). m < bl') \<and> (\<forall>(y, m) \<in> set post. m \<le> bl')"
        using a True by simp
      then show ?thesis by blast
    qed
  next
    case False
    with Cons.prems a have r: "longestFirst xs (b, bl) = (b', bl')" by simp
    from Cons.IH [OF r] show ?thesis
    proof (elim disjE conjE exE)
      assume "b' = b" "bl' = bl" "\<forall>(y, m) \<in> set xs. m \<le> bl"
      then show ?thesis using a False by simp
    next
      fix pre x' post
      assume h: "xs = pre @ (x', bl') # post" "b' = Some x'" "bl < bl'"
        "\<forall>(y, m) \<in> set pre. m < bl'" "\<forall>(y, m) \<in> set post. m \<le> bl'"
      then have "a # xs = (a # pre) @ (x', bl') # post \<and> b' = Some x' \<and> bl < bl' \<and>
        (\<forall>(y, m) \<in> set (a # pre). m < bl') \<and> (\<forall>(y, m) \<in> set post. m \<le> bl')"
        using a False by simp
      then show ?thesis by blast
    qed
  qed
qed

text \<open>From the empty start: nothing is chosen exactly when every candidate has length 0.\<close>

lemma longestFirst_None:
  "fst (longestFirst xs (None, 0)) = None \<longleftrightarrow> (\<forall>(y, m) \<in> set xs. m = 0)"
proof -
  obtain b' bl' where r: "longestFirst xs (None, 0) = (b', bl')"
    by (cases "longestFirst xs (None, 0)")
  from longestFirst_cases [OF r] show ?thesis
  proof (elim disjE conjE exE)
    assume "b' = None" "bl' = 0" "\<forall>(y, m) \<in> set xs. m \<le> 0"
    then show ?thesis using r by (simp add: case_prod_beta)
  next
    fix pre x post
    assume h: "xs = pre @ (x, bl') # post" "b' = Some x" "0 < bl'"
    then have "(x, bl') \<in> set xs" by simp
    with h(3) have "\<not> (\<forall>(y, m) \<in> set xs. m = 0)" by fastforce
    then show ?thesis using r h(2) by simp
  qed
qed

lemma longestFirst_Some:
  assumes "fst (longestFirst xs (None, 0)) = Some w"
  shows "\<exists>pre n post. xs = pre @ (w, n) # post \<and> 0 < n \<and>
           (\<forall>(y, m) \<in> set pre. m < n) \<and> (\<forall>(y, m) \<in> set post. m \<le> n)"
proof -
  obtain b' bl' where r: "longestFirst xs (None, 0) = (b', bl')"
    by (cases "longestFirst xs (None, 0)")
  from assms r have b: "b' = Some w" by simp
  from longestFirst_cases [OF r] show ?thesis
  proof (elim disjE conjE exE)
    assume "b' = None"
    with b show ?thesis by simp
  next
    fix pre x post
    assume h: "xs = pre @ (x, bl') # post" "b' = Some x" "0 < bl'"
      "\<forall>(y, m) \<in> set pre. m < bl'" "\<forall>(y, m) \<in> set post. m \<le> bl'"
    with b have "x = w" by simp
    with h show ?thesis by blast
  qed
qed

text \<open>A decomposition of a mapped list comes from one of the list.\<close>

lemma map_decompose:
  assumes a: "map f xs = pre @ y # post"
  shows "\<exists>pre' x post'. xs = pre' @ x # post' \<and> map f pre' = pre \<and> f x = y \<and> map f post' = post"
proof -
  let ?n = "length pre"
  have len: "length xs = length pre + Suc (length post)"
    using arg_cong [OF a, of length] by simp
  then have n: "?n < length xs" by simp
  have 1: "xs = take ?n xs @ xs ! ?n # drop (Suc ?n) xs"
    using n by (rule id_take_nth_drop)
  have 2: "map f (take ?n xs) = pre"
    by (simp add: take_map [symmetric] a)
  have 3: "f (xs ! ?n) = y"
    using nth_map [OF n, of f] by (simp add: a)
  have 4: "map f (drop (Suc ?n) xs) = post"
    by (simp add: drop_map [symmetric] a)
  from 1 2 3 4 show ?thesis by blast
qed

lemma prefixFolders_longestFirst:
  "prefixFolders platform p w dirs best =
     longestFirst (map (\<lambda>(w, root). (w, length root))
        (filter (\<lambda>(w, root). prefix root p) (map (\<lambda>dir. (w, normalizeFilePath platform dir)) dirs))) best"
  by (induction platform p w dirs best rule: prefixFolders.induct)
    (simp_all add: Let_def startsWith_def)

lemma prefixEntries_longestFirst:
  "prefixEntries platform p es best =
     longestFirst (map (\<lambda>(w, root). (w, length root))
        (filter (\<lambda>(w, root). prefix root p) (workspaceRoots platform es))) best"
proof (induction es arbitrary: best)
  case Nil
  then show ?case by (simp add: workspaceRoots_def)
next
  case (Cons e es)
  show ?case
  proof (cases "workspaceJson e")
    case None
    then show ?thesis using Cons.IH by (simp add: workspaceRoots_def)
  next
    case (Some wd)
    then show ?thesis
      using Cons.IH
      by (simp add: workspaceRoots_def prefixFolders_longestFirst longestFirst_append)
  qed
qed

lemma getProjectFromFilePath_longestFirst:
  "getProjectFromFilePath platform filePath es =
     fst (longestFirst (map (\<lambda>(w, root). (w, length root)) (prefixCandidates platform filePath es)) (None, 0))"
  by (simp add: getProjectFromFilePath_def prefixEntries_longestFirst prefixCandidates_def)

lemma getProjectFromFilePath_None:
  "getProjectFromFilePath platform filePath es = None \<longleftrightarrow>
     (\<forall>(w, root) \<in> set (prefixCandidates platform filePath es). root = [])"
  unfolding getProjectFromFilePath_longestFirst longestFirst_None
  by (simp add: case_prod_beta)

lemma getProjectFromFilePath_Some:
  assumes "getProjectFromFilePath platform filePath es = Some w"
  shows "\<exists>pre root post. prefixCandidates platform filePath es = pre @ (w, root) # post \<and> root \<noteq> [] \<and>
           (\<forall>(w', root') \<in> set pre. length root' < length root) \<and>
           (\<forall>(w', root') \<in> set post. length root' \<le> length root)"
proof -
  let ?f = "\<lambda>(w, root). (w, length (root :: jsString))"
  from assms have "fst (longestFirst (map ?f (prefixCandidates platform filePath es)) (None, 0)) = Some w"
    by (simp only: getProjectFromFilePath_longestFirst)
  from longestFirst_Some [OF this] obtain pre n post where d:
    "map ?f (prefixCandidates platform filePath es) = pre @ (w, n) # post" "0 < n"
    "\<forall>(y, m) \<in> set pre. m < n" "\<forall>(y, m) \<in> set post. m \<le> n"
    by blast
  from map_decompose [OF d(1)] obtain pre' x post' where e:
    "prefixCandidates platform filePath es = pre' @ x # post'" "map ?f pre' = pre"
    "?f x = (w, n)" "map ?f post' = post" by blast
  obtain w' root where x: "x = (w', root)" by (cases x)
  with e(3) have wr: "w' = w" "length root = n" by auto
  have "\<forall>(w', root') \<in> set pre'. length root' < length root"
    using d(3) wr unfolding e(2) [symmetric] by (simp add: case_prod_beta)
  moreover have "\<forall>(w', root') \<in> set post'. length root' \<le> length root"
    using d(4) wr unfolding e(4) [symmetric] by (simp add: case_prod_beta)
  moreover have "root \<noteq> []" using d(2) wr by auto
  ultimately show ?thesis using e(1) x wr by blast
qed


text \<open>
  Claim C6, as the code has it.  \<open>getProjectFromFilePath\<close> is a raw string-prefix test
  over normalized paths: it returns nothing exactly when no root with a non-empty
  normalized form is a prefix of the normalized path, and otherwise the workspace of a
  prefix root that is strictly longer than every prefix root met before it and at
  least as long as every one met after it (the longest, the first-encountered on
  ties).  With roots \<open>/a/b\<close> and \<open>/a/b/c\<close> the path \<open>/a/b/c/d.txt\<close> goes to the owner of
  \<open>/a/b/c\<close>, and the root \<open>/a/bee\<close> matches \<open>/a/beetle/x\<close>: no segment boundary is
  enforced.
\<close>

theorem getProjectFromFilePath_longest_nonempty_prefix:
  "(getProjectFromFilePath platform filePath es = None \<longleftrightarrow>
      (\<forall>(w, root) \<in> set (prefixCandidates platform filePath es). root = [])) \<and>
   (\<forall>w. getProjectFromFilePath platform filePath es = Some w \<longrightarrow>
      (\<exists>pre root post.
         prefixCandidates platform filePath es = pre @ (w, root) # post \<and> root \<noteq> [] \<and>
         (\<forall>(w', root') \<in> set pre. length root' < length root) \<and>
         (\<forall>(w', root') \<in> set post. length root' \<le> length root))) \<and>
   getProjectFromFilePath Posix (js ''/a/b/c/d.txt'') [ws (js ''W1'') (js ''/a/b''), ws (js ''W2'') (js ''/a/b/c'')] = Some (js ''W2'') \<and>
   getProjectFromFilePath Posix (js ''/a/beetle/x'') [ws (js ''W1'') (js ''/a/bee'')] = Some (js ''W1'')"
proof (intro conjI allI impI)
  show "getProjectFromFilePath platform filePath es = None \<longleftrightarrow>
      (\<forall>(w, root) \<in> set (prefixCandidates platform filePath es). root = [])"
    by (rule getProjectFromFilePath_None)
next
  fix w
  assume "getProjectFromFilePath platform filePath es = Some w"
  then show "\<exists>pre root post.
         prefixCandidates platform filePath es = pre @ (w, root) # post \<and> root \<noteq> [] \<and>
         (\<forall>(w', root') \<in> set pre. length root' < length root) \<and>
         (\<forall>(w', root') \<in> set post. length root' \<le> length root)"
    by (rule getProjectFromFilePath_Some)
next
  show "getProjectFromFilePath Posix (js ''/a/b/c/d.txt'') [ws (js ''W1'') (js ''/a/b''), ws (js ''W2'') (js ''/a/b/c'')] = Some (js ''W2'')"
    by code_simp
next
  show "getProjectFromFilePath Posix (js ''/a/beetle/x'') [ws (js ''W1'') (js ''/a/bee'')] = Some (js ''W1'')"
    by code_simp
qed

theorem getProjectFromFilePath_longest_nonempty_prefix_witness:
  "getProjectFromFilePath Posix (js ''/a/b/c/d.txt'') [ws (js ''W1'') (js ''/a/b''), ws (js ''W2'') (js ''/a/b/c'')] = Some (js ''W2'') \<and>
   (\<exists>pre root post.
      prefixCandidates Posix (js ''/a/b/c/d.txt'') [ws (js ''W1'') (js ''/a/b''), ws (js ''W2'') (js ''/a/b/c'')]
        = pre @ (js ''W2'', root) # post \<and> root \<noteq> [] \<and>
      (\<forall>(w', root') \<in> set pre. length root' < length root) \<and>
      (\<forall>(w', root') \<in> set post. length root' \<le> length root))"
proof -
  have r: "getProjectFromFilePath Posix (js ''/a/b/c/d.txt'') [ws (js ''W1'') (js ''/a/b''), ws (js ''W2'') (js ''/a/b/c'')] = Some (js ''W2'')"
    by code_simp
  with getProjectFromFilePath_longest_nonempty_prefix
         [of Posix "js ''/a/b/c/d.txt''" "[ws (js ''W1'') (js ''/a/b''), ws (js ''W2'') (js ''/a/b/c'')]"]
  show ?thesis by blast
qed

text \<open>
  Claim C6 as stated lets every root whose normalized form is a prefix compete.  A
  root that normalizes to the empty string (the folder \<open>file:///\<close>) is a prefix of
  every path and is never returned: \<open>bestLen\<close> starts at 0 and only a strictly longer
  root replaces it.
\<close>

theorem getProjectFromFilePath_empty_root:
  "prefixCandidates Posix (js ''/x/y'') [ws (js ''W1'') (js ''file:///'')] = [(js ''W1'', [])] \<and>
   getProjectFromFilePath Posix (js ''/x/y'') [ws (js ''W1'') (js ''file:///'')] = None"
  by code_simp

section \<open>The folder-name index\<close>

lemma nameFolders_lookup:
  "nameFolders w dirs m b =
     (if b \<noteq> [] \<and> b \<in> set (map (\<lambda>dir. folderNameOr (stripPrefix (js ''file://'') dir)) dirs)
      then Some w else m b)"
  by (induction w dirs m rule: nameFolders.induct) (auto simp: Let_def)

lemma nameEntries_lookup:
  "nameEntries es m b =
     (if filter (\<lambda>e. writesName folderNameOr e b) es = [] then m b
      else Some (name (last (filter (\<lambda>e. writesName folderNameOr e b) es))))"
proof (induction es arbitrary: m)
  case Nil
  then show ?case by simp
next
  case (Cons e es)
  show ?case
  proof (cases "workspaceJson e")
    case None
    then have "\<not> writesName folderNameOr e b" by (simp add: writesName_def)
    with None Cons.IH show ?thesis by simp
  next
    case (Some wd)
    then show ?thesis
      using Cons.IH by (simp add: writesName_def nameFolders_lookup)
  qed
qed

lemma exportFolders_lookup:
  "snd (exportFolders platform w dirs (pm, m)) b =
     (if b \<noteq> [] \<and> b \<in> set (map (\<lambda>dir. folderNameChain (stripPrefix (js ''file://'') dir)) dirs)
      then Some w else m b)"
  by (induction platform w dirs "(pm, m)" arbitrary: pm m rule: exportFolders.induct)
    (auto simp: Let_def)

lemma exportEntries_lookup:
  "snd (exportEntries platform es maps) b =
     (if filter (\<lambda>e. writesName folderNameChain e b) es = [] then snd maps b
      else Some (name (last (filter (\<lambda>e. writesName folderNameChain e b) es))))"
proof (induction es arbitrary: maps)
  case Nil
  then show ?case by simp
next
  case (Cons e es)
  obtain pm m where maps: "maps = (pm, m)" by (cases maps)
  show ?case
  proof (cases "workspaceJson e")
    case None
    then have "\<not> writesName folderNameChain e b" by (simp add: writesName_def)
    with None Cons.IH show ?thesis by simp
  next
    case (Some wd)
    then show ?thesis
      using Cons.IH by (simp add: maps writesName_def exportFolders_lookup)
  qed
qed

text \<open>
  Claim C3, as the code has it.  Both builders of the name index assign
  \<open>projectNameToWorkspaceId[folderName] = entry.name\<close> unconditionally, so a folder name
  maps to the last workspace, in input order, that has a folder of that name; it is
  absent when no workspace has one.
\<close>

theorem projectNameToWorkspaceId_last_writer:
  "createProjectNameToWorkspaceIdMap es b =
     (if filter (\<lambda>e. writesName folderNameOr e b) es = [] then None
      else Some (name (last (filter (\<lambda>e. writesName folderNameOr e b) es)))) \<and>
   export_projectNameToWorkspaceId platform es b =
     (if filter (\<lambda>e. writesName folderNameChain e b) es = [] then None
      else Some (name (last (filter (\<lambda>e. writesName folderNameChain e b) es))))"
  by (simp add: createProjectNameToWorkspaceIdMap_def export_projectNameToWorkspaceId_def
      nameEntries_lookup exportEntries_lookup)

theorem projectNameToWorkspaceId_last_writer_witness:
  "createProjectNameToWorkspaceIdMap
     [ws (js ''W1'') (js ''file:///home/u/one/proj''), ws (js ''W2'') (js ''file:///home/u/two/proj''),
      ws (js ''W3'') (js ''file:///home/u/other'')] (js ''proj'') = Some (js ''W2'')"
proof -
  let ?es = "[ws (js ''W1'') (js ''file:///home/u/one/proj''), ws (js ''W2'') (js ''file:///home/u/two/proj''),
      ws (js ''W3'') (js ''file:///home/u/other'')]"
  have f: "filter (\<lambda>e. writesName folderNameOr e (js ''proj'')) ?es
             = [ws (js ''W1'') (js ''file:///home/u/one/proj''), ws (js ''W2'') (js ''file:///home/u/two/proj'')]"
    by code_simp
  have n: "name (ws (js ''W2'') (js ''file:///home/u/two/proj'')) = js ''W2''"
    by (simp add: ws_def)
  show ?thesis
    using projectNameToWorkspaceId_last_writer [of ?es "js ''proj''" Posix] f n by simp
qed

text \<open>
  Claim C3 as stated (the first workspace encountered keeps the name) fails with two
  workspaces whose folders are both called \<open>proj\<close>: the lookup gives the second.
\<close>

theorem projectNameToWorkspaceId_first_writer_lost:
  "createProjectNameToWorkspaceIdMap
     [ws (js ''W1'') (js ''file:///home/u/one/proj''), ws (js ''W2'') (js ''file:///home/u/two/proj'')] (js ''proj'')
     \<noteq> Some (js ''W1'') \<and>
   createProjectNameToWorkspaceIdMap
     [ws (js ''W1'') (js ''file:///home/u/one/proj''), ws (js ''W2'') (js ''file:///home/u/two/proj'')] (js ''proj'')
     = Some (js ''W2'') \<and>
   export_projectNameToWorkspaceId Posix
     [ws (js ''W1'') (js ''file:///home/u/one/proj''), ws (js ''W2'') (js ''file:///home/u/two/proj'')] (js ''proj'')
     = Some (js ''W2'')"
  by code_simp

section \<open>The segment heuristic\<close>













text \<open>
  The length is counted in code units.  Of two folder names that are both segments of a
  collected path, one made of two letters e with an acute accent (U+00E9 twice: two
  code units, four bytes of UTF-8) and \<open>abc\<close>, the second is the longer one.
\<close>

lemma segmentHeuristic_code_units:
  "segmentHeuristic Posix [js ''/x/'' @ [0xE9, 0xE9] @ js ''/abc/f.ts'']
     [ws (js ''W1'') (js ''/p/'' @ [0xE9, 0xE9]), ws (js ''W2'') (js ''/q/abc'')] = Some (js ''W2'')"
  by code_simp

section \<open>Declared root paths and the definitive map\<close>

lemma layoutMatches_longestFirst:
  "layoutMatches platform es pl best =
     longestFirst
       (map (\<lambda>rp. (the (getProjectFromFilePath platform rp es), length (normalizeFilePath platform rp)))
          (filter (\<lambda>rp. truthy (getProjectFromFilePath platform rp es)) pl))
       best"
proof (induction platform es pl best rule: layoutMatches.induct)
  case (1 platform workspaceEntries best)
  then show ?case by simp
next
  case (2 platform workspaceEntries rp rest bestLayout bestLayoutLen)
  then show ?case
    by (cases "getProjectFromFilePath platform rp workspaceEntries") (simp_all add: Let_def truthy_def)
qed

lemma assignWorkspace_declared_longest:
  assumes "fst (layoutMatches platform es pl (None, 0)) = Some w" and "w \<noteq> []"
  shows "assignWorkspace platform composerData composerId [composerId \<mapsto> pl] es bubbleMap = w \<and>
         (\<exists>pre rp post.
            filter (\<lambda>rp. truthy (getProjectFromFilePath platform rp es)) pl = pre @ rp # post \<and>
            getProjectFromFilePath platform rp es = Some w \<and>
            (\<forall>rp' \<in> set pre. length (normalizeFilePath platform rp') < length (normalizeFilePath platform rp)) \<and>
            (\<forall>rp' \<in> set post. length (normalizeFilePath platform rp') \<le> length (normalizeFilePath platform rp)))"
proof -
  let ?ms = "filter (\<lambda>rp. truthy (getProjectFromFilePath platform rp es)) pl"
  let ?f = "\<lambda>rp. (the (getProjectFromFilePath platform rp es), length (normalizeFilePath platform rp))"
  from assms(1) have "fst (longestFirst (map ?f ?ms) (None, 0)) = Some w"
    by (simp only: layoutMatches_longestFirst)
  from longestFirst_Some [OF this] obtain pre n post where d:
    "map ?f ?ms = pre @ (w, n) # post" "0 < n"
    "\<forall>(y, m) \<in> set pre. m < n" "\<forall>(y, m) \<in> set post. m \<le> n"
    by blast
  from map_decompose [OF d(1)] obtain pre' rp post' where e:
    "?ms = pre' @ rp # post'" "map ?f pre' = pre" "?f rp = (w, n)" "map ?f post' = post"
    by blast
  have "rp \<in> set ?ms" using e(1) by simp
  then have "truthy (getProjectFromFilePath platform rp es)" by simp
  with e(3) have m: "getProjectFromFilePath platform rp es = Some w" "length (normalizeFilePath platform rp) = n"
    by (auto simp: truthy_def split: option.splits)
  have "\<forall>rp' \<in> set pre'. length (normalizeFilePath platform rp') < length (normalizeFilePath platform rp)"
    using d(3) m unfolding e(2) [symmetric] by simp
  moreover have "\<forall>rp' \<in> set post'. length (normalizeFilePath platform rp') \<le> length (normalizeFilePath platform rp)"
    using d(4) m unfolding e(4) [symmetric] by simp
  moreover have "assignWorkspace platform composerData composerId [composerId \<mapsto> pl] es bubbleMap = w"
    using assms by (simp add: assignWorkspace_def Let_def truthy_def)
  ultimately show ?thesis using e(1) m(1) by blast
qed

text \<open>
  Claim C4 at a concrete input.  Two workspaces have the roots \<open>/a\<close> and \<open>/a/b\<close>, and
  the conversation declares \<open>/a\<close> and then \<open>/a/b\<close>; both are full-path matches.  The
  route's \<open>determineProjectForConversation\<close> returns at the first hit, the workspace of
  \<open>/a\<close>, although the normalized \<open>/a/b\<close> is longer; \<open>assignWorkspace\<close> of \<open>export.js\<close>
  (``Use longest-match for project layouts'') returns the workspace of \<open>/a/b\<close>.
\<close>

theorem declared_paths_first_hit_in_route:
  "determineProjectForConversation_tabs Posix emptyComposer (js ''c1'') [js ''c1'' \<mapsto> [js ''/a'', js ''/a/b'']]
     (createProjectNameToWorkspaceIdMap [ws (js ''W1'') (js ''/a''), ws (js ''W2'') (js ''/a/b'')])
     (createWorkspacePathToIdMap Posix [ws (js ''W1'') (js ''/a''), ws (js ''W2'') (js ''/a/b'')])
     [ws (js ''W1'') (js ''/a''), ws (js ''W2'') (js ''/a/b'')] Map.empty = Some (js ''W1'') \<and>
   createWorkspacePathToIdMap Posix [ws (js ''W1'') (js ''/a''), ws (js ''W2'') (js ''/a/b'')] (normalizeFilePath Posix (js ''/a''))
     = Some (js ''W1'') \<and>
   createWorkspacePathToIdMap Posix [ws (js ''W1'') (js ''/a''), ws (js ''W2'') (js ''/a/b'')] (normalizeFilePath Posix (js ''/a/b''))
     = Some (js ''W2'') \<and>
   length (normalizeFilePath Posix (js ''/a'')) < length (normalizeFilePath Posix (js ''/a/b'')) \<and>
   assignWorkspace Posix emptyComposer (js ''c1'') [js ''c1'' \<mapsto> [js ''/a'', js ''/a/b'']]
     [ws (js ''W1'') (js ''/a''), ws (js ''W2'') (js ''/a/b'')] Map.empty = js ''W2''"
  by code_simp

lemma composerIds_values:
  "composerIds w cs m c = Some v \<Longrightarrow> v = w \<or> m c = Some v"
  by (induction w cs m rule: composerIds.induct) (auto split: if_splits)

lemma composerIdEntries_values:
  "composerIdEntries allComposers es m c = Some v \<Longrightarrow> v \<in> name ` set es \<or> m c = Some v"
proof (induction es arbitrary: m)
  case Nil
  then show ?case by simp
next
  case (Cons e es)
  then show ?case
    by (fastforce split: option.splits dest: composerIds_values)
qed

lemma buildComposerIdToWorkspaceId_values:
  "buildComposerIdToWorkspaceId allComposers es c = Some v \<Longrightarrow> v \<in> name ` set es"
  using composerIdEntries_values [of allComposers es Map.empty c v]
  by (simp add: buildComposerIdToWorkspaceId_def)

text \<open>
  Claim C1.  When the definitive map holds a workspace id for the conversation, the
  workspaces route's \<open>determineProjectForConversation\<close> returns that id, whatever the
  declared root paths, the referenced paths and the workspace catalog are: none of
  them is consulted.  The ids of the map are workspace directory names, hence not
  empty; the second part says so for the map the route builds.
\<close>

theorem direct_workspace_id_wins:
  "(composerIdToWorkspaceId composerId = Some w \<and> w \<noteq> [] \<longrightarrow>
      determineProjectForConversation platform composerData composerId projectLayoutsMap
        projectNameToWorkspaceId workspacePathToId workspaceEntries bubbleMap
        (Some composerIdToWorkspaceId) = Some w) \<and>
   ((\<forall>e \<in> set es. name e \<noteq> []) \<and> buildComposerIdToWorkspaceId allComposers es composerId = Some w \<longrightarrow>
      determineProjectForConversation platform composerData composerId projectLayoutsMap
        projectNameToWorkspaceId workspacePathToId workspaceEntries bubbleMap
        (Some (buildComposerIdToWorkspaceId allComposers es)) = Some w)"
proof (intro conjI impI)
  assume "composerIdToWorkspaceId composerId = Some w \<and> w \<noteq> []"
  then show "determineProjectForConversation platform composerData composerId projectLayoutsMap
        projectNameToWorkspaceId workspacePathToId workspaceEntries bubbleMap
        (Some composerIdToWorkspaceId) = Some w"
    by (simp add: determineProjectForConversation_def truthy_def)
next
  assume a: "(\<forall>e \<in> set es. name e \<noteq> []) \<and>
             buildComposerIdToWorkspaceId allComposers es composerId = Some w"
  then have "w \<in> name ` set es"
    using buildComposerIdToWorkspaceId_values by blast
  with a have "w \<noteq> []" by auto
  with a show "determineProjectForConversation platform composerData composerId projectLayoutsMap
        projectNameToWorkspaceId workspacePathToId workspaceEntries bubbleMap
        (Some (buildComposerIdToWorkspaceId allComposers es)) = Some w"
    by (simp add: determineProjectForConversation_def truthy_def)
qed

theorem direct_workspace_id_wins_witness:
  "buildComposerIdToWorkspaceId (\<lambda>n. if n = js ''W1'' then Some [Some (js ''c1'')] else None)
     [ws (js ''W1'') (js ''/a''), ws (js ''W2'') (js ''/b'')] (js ''c1'') = Some (js ''W1'') \<and>
   determineProjectForConversation Posix
     (emptyComposer\<lparr>newlyCreatedFiles := [Some (js ''/b/x.ts'')]\<rparr>) (js ''c1'') [js ''c1'' \<mapsto> [js ''/b'']]
     (createProjectNameToWorkspaceIdMap [ws (js ''W1'') (js ''/a''), ws (js ''W2'') (js ''/b'')])
     (createWorkspacePathToIdMap Posix [ws (js ''W1'') (js ''/a''), ws (js ''W2'') (js ''/b'')])
     [ws (js ''W1'') (js ''/a''), ws (js ''W2'') (js ''/b'')] Map.empty
     (Some (buildComposerIdToWorkspaceId (\<lambda>n. if n = js ''W1'' then Some [Some (js ''c1'')] else None)
        [ws (js ''W1'') (js ''/a''), ws (js ''W2'') (js ''/b'')])) = Some (js ''W1'') \<and>
   determineProjectForConversation Posix
     (emptyComposer\<lparr>newlyCreatedFiles := [Some (js ''/b/x.ts'')]\<rparr>) (js ''c1'') [js ''c1'' \<mapsto> [js ''/b'']]
     (createProjectNameToWorkspaceIdMap [ws (js ''W1'') (js ''/a''), ws (js ''W2'') (js ''/b'')])
     (createWorkspacePathToIdMap Posix [ws (js ''W1'') (js ''/a''), ws (js ''W2'') (js ''/b'')])
     [ws (js ''W1'') (js ''/a''), ws (js ''W2'') (js ''/b'')] Map.empty None = Some (js ''W2'')"
proof -
  let ?es = "[ws (js ''W1'') (js ''/a''), ws (js ''W2'') (js ''/b'')]"
  let ?all = "\<lambda>n. if n = js ''W1'' then Some [Some (js ''c1'')] else None"
  have n: "\<forall>e \<in> set ?es. name e \<noteq> []" by (simp add: ws_def js_def)
  have b: "buildComposerIdToWorkspaceId ?all ?es (js ''c1'') = Some (js ''W1'')" by code_simp
  have w: "determineProjectForConversation Posix
     (emptyComposer\<lparr>newlyCreatedFiles := [Some (js ''/b/x.ts'')]\<rparr>) (js ''c1'') [js ''c1'' \<mapsto> [js ''/b'']]
     (createProjectNameToWorkspaceIdMap ?es) (createWorkspacePathToIdMap Posix ?es)
     ?es Map.empty None = Some (js ''W2'')" by code_simp
  from direct_workspace_id_wins
         [of "buildComposerIdToWorkspaceId ?all ?es" "js ''c1''" "js ''W1''" Posix
             "emptyComposer\<lparr>newlyCreatedFiles := [Some (js ''/b/x.ts'')]\<rparr>" "[js ''c1'' \<mapsto> [js ''/b'']]"
             "createProjectNameToWorkspaceIdMap ?es" "createWorkspacePathToIdMap Posix ?es"
             ?es Map.empty ?es ?all] n b w
  show ?thesis by simp
qed

section \<open>The conversation assembler\<close>

text \<open>
  \<open>bubbles.sort\<close> with the comparator of the source is the stable sort by timestamp,
  \<^const>\<open>sort_key\<close> here.
\<close>

lemma hasContent_iff:
  "hasContent ctxs h b \<longleftrightarrow>
     trim (extractTextFromBubble b @ contextText ctxs (bubbleId h)) \<noteq> [] \<or>
     toolFormerData b \<noteq> None \<or> truthy (bubbleThinking b)"
  by (simp add: hasContent_def fullText_def bubbleToolCalls_def split: option.splits)


lemma mkBubble_proj:
  "bubbleType (mkBubble ctxs h b ts) = roleOf h \<and>
   bubbleText (mkBubble ctxs h b ts) = displayText ctxs h b \<and>
   bubbleTimestamp (mkBubble ctxs h b ts) = ts"
  by (simp add: mkBubble_def Let_def roleOf_def)

lemma mkBubble_responseTime: "responseTimeOf (mkBubble ctxs h b ts) = None"
  by (simp add: mkBubble_def Let_def responseTimeOf_def metaField_def mkBubbleMeta_def
      split: option.splits)

lemma buildBubbles_proj:
  "map (\<lambda>c. (bubbleType c, bubbleText c)) (fst (buildBubbles clock bm ctxs hs (acc, n))) =
     map (\<lambda>c. (bubbleType c, bubbleText c)) acc @
     map (\<lambda>(h, b). (roleOf h, displayText ctxs h b))
       (filter (\<lambda>(h, b). hasContent ctxs h b) (headerBubbles bm hs))"
proof (induction hs arbitrary: acc n)
  case Nil
  then show ?case by (simp add: headerBubbles_def)
next
  case (Cons h hs)
  show ?case
  proof (cases "bm (bubbleId h)")
    case None
    then show ?thesis using Cons.IH [of acc n] by (simp add: headerBubbles_def)
  next
    case (Some b)
    show ?thesis
    proof (cases "hasContent ctxs h b")
      case False
      with Some show ?thesis using Cons.IH [of acc n] by (simp add: headerBubbles_def)
    next
      case True
      obtain ts n' where t: "bubbleTime clock n b = (ts, n')" by (cases "bubbleTime clock n b")
      with Some True show ?thesis
        using Cons.IH [of "acc @ [mkBubble ctxs h b ts]" n']
        by (simp add: headerBubbles_def mkBubble_proj)
    qed
  qed
qed

lemma buildBubbles_responseTime:
  "\<forall>c \<in> set acc. responseTimeOf c = None \<Longrightarrow>
     \<forall>c \<in> set (fst (buildBubbles clock bm ctxs hs (acc, n))). responseTimeOf c = None"
proof (induction hs arbitrary: acc n)
  case Nil
  then show ?case by simp
next
  case (Cons h hs)
  show ?case
  proof (cases "bm (bubbleId h)")
    case None
    then show ?thesis using Cons.IH [OF Cons.prems, of n] by simp
  next
    case (Some b)
    show ?thesis
    proof (cases "hasContent ctxs h b")
      case False
      with Some show ?thesis using Cons.IH [OF Cons.prems, of n] by simp
    next
      case True
      obtain ts n' where t: "bubbleTime clock n b = (ts, n')" by (cases "bubbleTime clock n b")
      have "\<forall>c \<in> set (acc @ [mkBubble ctxs h b ts]). responseTimeOf c = None"
        using Cons.prems by (simp add: mkBubble_responseTime)
      from Cons.IH [OF this, of n'] Some True t show ?thesis by simp
    qed
  qed
qed


lemma diffBubbles_proj:
  "map (\<lambda>c. (bubbleType c, bubbleText c)) (fst (diffBubbles clock ds (acc, n))) =
     map (\<lambda>c. (bubbleType c, bubbleText c)) acc @
     map (\<lambda>d. (Ai, js ''**Tool Action:**'' @ formatToolAction d))
       (filter (\<lambda>d. trim (formatToolAction d) \<noteq> []) ds)"
  by (induction clock ds "(acc, n)" arbitrary: acc n rule: diffBubbles.induct)
    (simp_all add: Let_def)

lemma diffBubbles_responseTime:
  "\<forall>c \<in> set acc. responseTimeOf c = None \<Longrightarrow>
     \<forall>c \<in> set (fst (diffBubbles clock ds (acc, n))). responseTimeOf c = None"
proof (induction ds arbitrary: acc n)
  case Nil
  then show ?case by simp
next
  case (Cons d ds)
  show ?case
  proof (cases "trim (formatToolAction d) \<noteq> []")
    case True
    have "\<forall>c \<in> set (acc @ [\<lparr>bubbleType = Ai, bubbleText = js ''**Tool Action:**'' @ formatToolAction d,
                           bubbleTimestamp = clock n, metadata = None\<rparr>]). responseTimeOf c = None"
      using Cons.prems by (simp add: responseTimeOf_def metaField_def)
    from Cons.IH [OF this, of "Suc n"] True show ?thesis by (simp add: Let_def)
  next
    case False
    with Cons.IH [OF Cons.prems, of n] show ?thesis by (simp add: Let_def)
  qed
qed

lemma diffBubbles_length:
  "length acc \<le> length (fst (diffBubbles clock ds (acc, n)))"
proof -
  have "length (map (\<lambda>c. (bubbleType c, bubbleText c)) acc)
          \<le> length (map (\<lambda>c. (bubbleType c, bubbleText c)) (fst (diffBubbles clock ds (acc, n))))"
    unfolding diffBubbles_proj by simp
  then show ?thesis by simp
qed


lemma responseTimes_proj:
  "map (\<lambda>c. (bubbleType c, bubbleText c, bubbleTimestamp c)) (responseTimes l bs) =
     map (\<lambda>c. (bubbleType c, bubbleText c, bubbleTimestamp c)) bs"
  by (induction l bs rule: responseTimes.induct) (simp_all split: option.splits)

lemma responseTimes_length: "length (responseTimes l bs) = length bs"
  using arg_cong [OF responseTimes_proj [of l bs], of length] by simp

lemma precedingUser_Nil: "precedingUser [] = None"
  by (simp add: precedingUser_def)

lemma precedingUser_Cons:
  "precedingUser (b # bs) =
     (case precedingUser bs of
        Some u \<Rightarrow> Some u
      | None \<Rightarrow> if bubbleType b = User then Some (bubbleTimestamp b) else None)"
  by (simp add: precedingUser_def split: list.splits)

lemma precedingUser_cong:
  "map (\<lambda>c. (bubbleType c, bubbleTimestamp c)) xs = map (\<lambda>c. (bubbleType c, bubbleTimestamp c)) ys \<Longrightarrow>
     precedingUser xs = precedingUser ys"
proof (induction xs arbitrary: ys)
  case Nil
  then show ?case by simp
next
  case (Cons x xs)
  then obtain y ys' where y: "ys = y # ys'" by (cases ys) auto
  with Cons.prems have "bubbleType x = bubbleType y" "bubbleTimestamp x = bubbleTimestamp y"
    "map (\<lambda>c. (bubbleType c, bubbleTimestamp c)) xs = map (\<lambda>c. (bubbleType c, bubbleTimestamp c)) ys'"
    by simp_all
  with Cons.IH [of ys'] y show ?case by (simp add: precedingUser_Cons split: option.splits)
qed

lemma responseTimes_nth:
  assumes "\<forall>c \<in> set bs. responseTimeOf c = None" and "i < length bs"
  shows "responseTimeOf (responseTimes l bs ! i) =
           (case (case precedingUser (take i bs) of None \<Rightarrow> l | Some u \<Rightarrow> Some u) of
              None \<Rightarrow> None
            | Some u \<Rightarrow>
                if bubbleType (bs ! i) = Ai \<and> u < bubbleTimestamp (bs ! i)
                then Some (bubbleTimestamp (bs ! i) - u) else None)"
  using assms
proof (induction bs arbitrary: l i)
  case Nil
  then show ?case by simp
next
  case (Cons b bs)
  have b0: "responseTimeOf b = None" using Cons.prems(1) by simp
  have rest: "\<forall>c \<in> set bs. responseTimeOf c = None" using Cons.prems(1) by simp
  show ?case
  proof (cases i)
    case 0
    have ty: "bubbleType b \<noteq> User \<Longrightarrow> bubbleType b = Ai" by (cases "bubbleType b") auto
    show ?thesis
      using 0 b0 ty
      by (cases l) (auto simp: precedingUser_Nil responseTimeOf_def metaField_def)
  next
    case (Suc j)
    then have j: "j < length bs" using Cons.prems(2) by simp
    let ?l' = "if bubbleType b = User then Some (bubbleTimestamp b) else l"
    have nth: "responseTimes l (b # bs) ! i = responseTimes ?l' bs ! j"
      using Suc by (cases l) auto
    have pre: "(case precedingUser (take i (b # bs)) of None \<Rightarrow> l | Some u \<Rightarrow> Some u) =
               (case precedingUser (take j bs) of None \<Rightarrow> ?l' | Some u \<Rightarrow> Some u)"
      using Suc by (simp add: precedingUser_Cons split: option.splits)
    have elem: "(b # bs) ! i = bs ! j" using Suc by simp
    show ?thesis
      unfolding nth pre elem using Cons.IH [OF rest j, of ?l'] .
  qed
qed

lemma assembleTab_Some:
  assumes "assembleTab clock n composerId cd bm cm dm = (Some tab, n')"
  shows "\<exists>built n1 withDiffs.
           buildBubbles clock bm (contextsOf cm composerId) (fullConversationHeadersOnly cd) ([], n)
             = (built, n1) \<and> built \<noteq> [] \<and>
           diffBubbles clock (diffsOf dm composerId) (built, n1) = (withDiffs, n') \<and>
           tabBubbles tab = responseTimes None (sort_key bubbleTimestamp withDiffs) \<and>
           tabId tab = composerId"
proof -
  obtain built n1 where b:
    "buildBubbles clock bm (contextsOf cm composerId) (fullConversationHeadersOnly cd) ([], n)
       = (built, n1)"
    by (cases "buildBubbles clock bm (contextsOf cm composerId) (fullConversationHeadersOnly cd) ([], n)")
  obtain withDiffs n2 where d:
    "diffBubbles clock (diffsOf dm composerId) (built, n1) = (withDiffs, n2)"
    by (cases "diffBubbles clock (diffsOf dm composerId) (built, n1)")
  from assms b d have "built \<noteq> []"
    by (auto simp: assembleTab_def contextsOf_def diffsOf_def Let_def split: if_splits)
  with assms b d show ?thesis
    by (auto simp: assembleTab_def contextsOf_def diffsOf_def Let_def)
qed

lemma assembleTab_None:
  "fst (assembleTab clock n composerId cd bm cm dm) = None \<longleftrightarrow>
     fst (buildBubbles clock bm (contextsOf cm composerId) (fullConversationHeadersOnly cd) ([], n)) = []"
  by (simp add: assembleTab_def contextsOf_def diffsOf_def Let_def case_prod_beta)


lemma built_sources:
  assumes "fst (buildBubbles clock bm ctxs hs ([], n)) \<noteq> []"
  shows "\<exists>(h, b) \<in> set (headerBubbles bm hs). hasContent ctxs h b"
proof (rule ccontr)
  assume "\<not> (\<exists>(h, b) \<in> set (headerBubbles bm hs). hasContent ctxs h b)"
  then have "filter (\<lambda>(h, b). hasContent ctxs h b) (headerBubbles bm hs) = []"
    by (auto simp: filter_empty_conv)
  with buildBubbles_proj [of clock bm ctxs hs "[]" n]
  have "map (\<lambda>c. (bubbleType c, bubbleText c)) (fst (buildBubbles clock bm ctxs hs ([], n))) = []"
    by simp
  with assms show False by simp
qed

lemma assembled_sources:
  assumes "assembleTab clock n composerId cd bm cm dm = (Some tab, n')"
  shows "tabId tab = composerId \<and> tabBubbles tab \<noteq> [] \<and>
         (\<exists>(h, b) \<in> set (headerBubbles bm (fullConversationHeadersOnly cd)).
            hasContent (contextsOf cm composerId) h b)"
proof -
  from assembleTab_Some [OF assms] obtain built n1 withDiffs where a:
    "buildBubbles clock bm (contextsOf cm composerId) (fullConversationHeadersOnly cd) ([], n)
       = (built, n1)" "built \<noteq> []"
    "diffBubbles clock (diffsOf dm composerId) (built, n1) = (withDiffs, n')"
    "tabBubbles tab = responseTimes None (sort_key bubbleTimestamp withDiffs)"
    "tabId tab = composerId"
    by blast
  have "length built \<le> length withDiffs"
    using diffBubbles_length [of built clock "diffsOf dm composerId" n1] a(3) by simp
  with a(2) have "withDiffs \<noteq> []" by auto
  then have "tabBubbles tab \<noteq> []"
    using a(4) responseTimes_length [of None "sort_key bubbleTimestamp withDiffs"]
    by (metis length_0_conv length_sort)
  moreover have "\<exists>(h, b) \<in> set (headerBubbles bm (fullConversationHeadersOnly cd)).
            hasContent (contextsOf cm composerId) h b"
    using built_sources [of clock bm "contextsOf cm composerId" "fullConversationHeadersOnly cd" n]
      a(1,2) by simp
  ultimately show ?thesis using a(5) by simp
qed

lemma tabsLoop_invariant:
  assumes "\<forall>tab \<in> set acc. P tab"
    and "\<And>composerId cd n tab n'.
           (composerId, Some cd) \<in> set rows \<Longrightarrow>
           assembleTab clock n composerId cd bm cm dm = (Some tab, n') \<Longrightarrow> P tab"
  shows "\<forall>tab \<in> set (fst (tabsLoop platform clock paramsId es plm bm cm dm rows (acc, n))). P tab"
  using assms
proof (induction rows arbitrary: acc n)
  case Nil
  then show ?case by simp
next
  case (Cons row rows)
  obtain composerId r where row: "row = (composerId, r)" by (cases row)
  have step: "P tab"
    if "(composerId, Some cd) \<in> set rows"
      and "assembleTab clock n composerId cd bm cm dm = (Some tab, n')"
    for composerId cd n tab n'
    by (rule Cons.prems(2) [OF _ that(2)]) (simp add: that(1))
  have ih: "\<forall>tab \<in> set (fst (tabsLoop platform clock paramsId es plm bm cm dm rows (acc', m))). P tab"
    if "\<forall>tab \<in> set acc'. P tab" for acc' m
    using that step by (rule Cons.IH)
  show ?case
  proof (cases r)
    case None
    with row show ?thesis using ih [OF Cons.prems(1), of n] by simp
  next
    case (Some cd)
    obtain t n1 where as: "assembleTab clock n composerId cd bm cm dm = (t, n1)"
      by (cases "assembleTab clock n composerId cd bm cm dm")
    show ?thesis
    proof (cases t)
      case None
      with row Some as show ?thesis
        using ih [OF Cons.prems(1), of n] ih [OF Cons.prems(1), of n1]
        by (simp add: Let_def)
    next
      case (Some tab)
      from as Some have as': "assembleTab clock n composerId cd bm cm dm = (Some tab, n1)"
        by simp
      have "P tab"
        by (rule Cons.prems(2) [OF _ as']) (simp add: row \<open>r = Some cd\<close>)
      then have "\<forall>tab \<in> set (acc @ [tab]). P tab" using Cons.prems(1) by simp
      from ih [OF this, of n1] ih [OF Cons.prems(1), of n]
      show ?thesis
        using row \<open>r = Some cd\<close> as Some by (simp add: Let_def)
    qed
  qed
qed

text \<open>
  Claim C10.  Every tab of the response of the tabs route has at least one bubble and
  comes from a stored conversation with at least one header whose bubble has content:
  a conversation whose fragments all lack content is not emitted, whatever workspace
  it was attributed to.
\<close>

theorem emitted_tabs_have_bubbles:
  "\<forall>tab \<in> set (GET_tabs platform clock paramsId es plm bm cm dm rows).
     tabBubbles tab \<noteq> [] \<and>
     (\<exists>cd. (tabId tab, Some cd) \<in> set rows \<and>
        (\<exists>(h, b) \<in> set (headerBubbles bm (fullConversationHeadersOnly cd)).
           hasContent (contextsOf cm (tabId tab)) h b))"
  unfolding GET_tabs_def
proof (rule tabsLoop_invariant)
  show "\<forall>tab \<in> set []. tabBubbles tab \<noteq> [] \<and>
     (\<exists>cd. (tabId tab, Some cd) \<in> set rows \<and>
        (\<exists>(h, b) \<in> set (headerBubbles bm (fullConversationHeadersOnly cd)).
           hasContent (contextsOf cm (tabId tab)) h b))"
    by simp
next
  fix composerId cd n tab n'
  assume r: "(composerId, Some cd) \<in> set rows"
    and a: "assembleTab clock n composerId cd bm cm dm = (Some tab, n')"
  from assembled_sources [OF a] r
  show "tabBubbles tab \<noteq> [] \<and>
     (\<exists>cd. (tabId tab, Some cd) \<in> set rows \<and>
        (\<exists>(h, b) \<in> set (headerBubbles bm (fullConversationHeadersOnly cd)).
           hasContent (contextsOf cm (tabId tab)) h b))"
    by auto
qed



theorem emitted_tabs_have_bubbles_witness:
  "map tabId
     (GET_tabs Posix (\<lambda>_. 5000) (js ''global'') [] Map.empty
        [js ''b1'' \<mapsto> textBubble (js ''hello'') (Some 1000), js ''b2'' \<mapsto> emptyBubble]
        Map.empty Map.empty
        [(js ''c1'', Some (conversation [hdr (js ''b1'') 1])), (js ''c2'', Some (conversation [hdr (js ''b2'') 2])),
         (js ''c3'', None)]) = [js ''c1''] \<and>
   tabBubbles (hd (GET_tabs Posix (\<lambda>_. 5000) (js ''global'') [] Map.empty
        [js ''b1'' \<mapsto> textBubble (js ''hello'') (Some 1000), js ''b2'' \<mapsto> emptyBubble]
        Map.empty Map.empty
        [(js ''c1'', Some (conversation [hdr (js ''b1'') 1])), (js ''c2'', Some (conversation [hdr (js ''b2'') 2])),
         (js ''c3'', None)])) \<noteq> []"
proof -
  let ?G = "GET_tabs Posix (\<lambda>_. 5000) (js ''global'') [] Map.empty
        [js ''b1'' \<mapsto> textBubble (js ''hello'') (Some 1000), js ''b2'' \<mapsto> emptyBubble]
        Map.empty Map.empty
        [(js ''c1'', Some (conversation [hdr (js ''b1'') 1])), (js ''c2'', Some (conversation [hdr (js ''b2'') 2])),
         (js ''c3'', None)]"
  have v: "map tabId ?G = [js ''c1'']" by code_simp
  then have "?G \<noteq> []" by auto
  then have "hd ?G \<in> set ?G" by simp
  with emitted_tabs_have_bubbles
         [of Posix "\<lambda>_. 5000" "js ''global''" "[]" Map.empty
             "[js ''b1'' \<mapsto> textBubble (js ''hello'') (Some 1000), js ''b2'' \<mapsto> emptyBubble]"
             Map.empty Map.empty
             "[(js ''c1'', Some (conversation [hdr (js ''b1'') 1])), (js ''c2'', Some (conversation [hdr (js ''b2'') 2])),
               (js ''c3'', None)]"]
  have "tabBubbles (hd ?G) \<noteq> []" by blast
  with v show ?thesis by simp
qed

lemma assembled_no_prior_response:
  assumes "buildBubbles clock bm ctxs hs ([], n) = (built, n1)"
    and "diffBubbles clock ds (built, n1) = (withDiffs, n2)"
  shows "\<forall>c \<in> set (sort_key bubbleTimestamp withDiffs). responseTimeOf c = None"
proof -
  have "\<forall>c \<in> set built. responseTimeOf c = None"
    using buildBubbles_responseTime [of "[]" clock bm ctxs hs n] assms(1) by simp
  then have "\<forall>c \<in> set withDiffs. responseTimeOf c = None"
    using diffBubbles_responseTime [of built clock ds n1] assms(2) by simp
  then show ?thesis by simp
qed

text \<open>
  What the response-time pass records.  In an assembled conversation every recorded
  response time is strictly positive, and the response time of each bubble is
  determined by the list itself: an assistant bubble later than the last user bubble
  before it carries the difference of the two timestamps; an assistant bubble whose
  timestamp is equal to or earlier than that of the last user bubble before it, an
  assistant bubble with no user bubble before it, and a user bubble carry none.
\<close>

lemma response_time_recorded:
  assumes "assembleTab clock n composerId cd bm cm dm = (Some tab, n')"
  shows "(\<forall>c \<in> set (tabBubbles tab). \<forall>r. responseTimeOf c = Some r \<longrightarrow> 0 < r) \<and>
         (\<forall>i < length (tabBubbles tab).
            responseTimeOf (tabBubbles tab ! i) =
              (case precedingUser (take i (tabBubbles tab)) of
                 None \<Rightarrow> None
               | Some u \<Rightarrow>
                   if bubbleType (tabBubbles tab ! i) = Ai \<and> u < bubbleTimestamp (tabBubbles tab ! i)
                   then Some (bubbleTimestamp (tabBubbles tab ! i) - u) else None))"
proof -
  from assembleTab_Some [OF assms] obtain built n1 withDiffs where a:
    "buildBubbles clock bm (contextsOf cm composerId) (fullConversationHeadersOnly cd) ([], n)
       = (built, n1)"
    "diffBubbles clock (diffsOf dm composerId) (built, n1) = (withDiffs, n')"
    "tabBubbles tab = responseTimes None (sort_key bubbleTimestamp withDiffs)"
    by blast
  let ?sorted = "sort_key bubbleTimestamp withDiffs"
  let ?out = "tabBubbles tab"
  have none: "\<forall>c \<in> set ?sorted. responseTimeOf c = None"
    using assembled_no_prior_response [OF a(1) a(2)] .
  have len: "length ?out = length ?sorted"
    by (simp add: a(3) responseTimes_length)
  have proj: "map (\<lambda>c. (bubbleType c, bubbleText c, bubbleTimestamp c)) ?out =
              map (\<lambda>c. (bubbleType c, bubbleText c, bubbleTimestamp c)) ?sorted"
    by (simp add: a(3) responseTimes_proj)
  have nth: "responseTimeOf (?out ! i) =
              (case precedingUser (take i ?out) of
                 None \<Rightarrow> None
               | Some u \<Rightarrow>
                   if bubbleType (?out ! i) = Ai \<and> u < bubbleTimestamp (?out ! i)
                   then Some (bubbleTimestamp (?out ! i) - u) else None)"
    if i: "i < length ?out" for i
  proof -
    from i len have i': "i < length ?sorted" by simp
    have e: "(bubbleType (?out ! i), bubbleText (?out ! i), bubbleTimestamp (?out ! i)) =
             (bubbleType (?sorted ! i), bubbleText (?sorted ! i), bubbleTimestamp (?sorted ! i))"
      using arg_cong [OF proj, of "\<lambda>xs. xs ! i"] i i' by simp
    have "map (\<lambda>c. (bubbleType c, bubbleTimestamp c)) ?out =
          map (\<lambda>c. (bubbleType c, bubbleTimestamp c)) ?sorted"
      using arg_cong [OF proj, of "map (\<lambda>(t, x, s). (t, s))"] by (simp add: comp_def)
    then have "map (\<lambda>c. (bubbleType c, bubbleTimestamp c)) (take i ?out) =
               map (\<lambda>c. (bubbleType c, bubbleTimestamp c)) (take i ?sorted)"
      by (simp add: take_map [symmetric])
    then have p: "precedingUser (take i ?out) = precedingUser (take i ?sorted)"
      by (rule precedingUser_cong)
    have "responseTimeOf (?out ! i) = responseTimeOf (responseTimes None ?sorted ! i)"
      by (simp add: a(3))
    also have "\<dots> =
       (case (case precedingUser (take i ?sorted) of None \<Rightarrow> None | Some u \<Rightarrow> Some u) of
              None \<Rightarrow> None
            | Some u \<Rightarrow>
                if bubbleType (?sorted ! i) = Ai \<and> u < bubbleTimestamp (?sorted ! i)
                then Some (bubbleTimestamp (?sorted ! i) - u) else None)"
      using responseTimes_nth [OF none i', of None] .
    finally show ?thesis
      using e p by (simp split: option.splits)
  qed
  have pos: "0 < r" if c: "c \<in> set ?out" and r: "responseTimeOf c = Some r" for c r
  proof -
    from c obtain i where i: "i < length ?out" "?out ! i = c"
      by (auto simp: in_set_conv_nth)
    from nth [OF i(1)] r i(2) show ?thesis
      by (auto split: option.splits if_splits)
  qed
  from nth pos show ?thesis by blast
qed


lemma response_time_recorded_example:
  "responseTimeOf
     (tabBubbles (the (fst (assembleTab (\<lambda>_. 5000) 0 (js ''c1'')
        (conversation [hdr (js ''b1'') 1, hdr (js ''b2'') 2, hdr (js ''b3'') 2])
        [js ''b1'' \<mapsto> textBubble (js ''hello'') (Some 1000), js ''b2'' \<mapsto> textBubble (js ''done'') (Some 3000),
         js ''b3'' \<mapsto> textBubble (js ''at once'') (Some 1000)]
        Map.empty Map.empty))) ! 2) = Some 2000 \<and>
   responseTimeOf
     (tabBubbles (the (fst (assembleTab (\<lambda>_. 5000) 0 (js ''c1'')
        (conversation [hdr (js ''b1'') 1, hdr (js ''b2'') 2, hdr (js ''b3'') 2])
        [js ''b1'' \<mapsto> textBubble (js ''hello'') (Some 1000), js ''b2'' \<mapsto> textBubble (js ''done'') (Some 3000),
         js ''b3'' \<mapsto> textBubble (js ''at once'') (Some 1000)]
        Map.empty Map.empty))) ! 1) = None"
proof -
  let ?X = "assembleTab (\<lambda>_. 5000) 0 (js ''c1'')
        (conversation [hdr (js ''b1'') 1, hdr (js ''b2'') 2, hdr (js ''b3'') 2])
        [js ''b1'' \<mapsto> textBubble (js ''hello'') (Some 1000), js ''b2'' \<mapsto> textBubble (js ''done'') (Some 3000),
         js ''b3'' \<mapsto> textBubble (js ''at once'') (Some 1000)]
        Map.empty Map.empty"
  let ?out = "tabBubbles (the (fst ?X))"
  have "fst ?X \<noteq> None" by code_simp
  then have x: "?X = (Some (the (fst ?X)), snd ?X)" by (cases ?X) auto
  have len: "1 < length ?out" "2 < length ?out" by code_simp+
  have r2: "(case precedingUser (take 2 ?out) of
               None \<Rightarrow> None
             | Some u \<Rightarrow>
                 if bubbleType (?out ! 2) = Ai \<and> u < bubbleTimestamp (?out ! 2)
                 then Some (bubbleTimestamp (?out ! 2) - u) else None) = Some 2000"
    by code_simp
  have r1: "(case precedingUser (take 1 ?out) of
               None \<Rightarrow> None
             | Some u \<Rightarrow>
                 if bubbleType (?out ! 1) = Ai \<and> u < bubbleTimestamp (?out ! 1)
                 then Some (bubbleTimestamp (?out ! 1) - u) else None) = None"
    by code_simp
  from response_time_recorded [OF x] have a:
    "\<forall>i < length ?out.
        responseTimeOf (?out ! i) =
          (case precedingUser (take i ?out) of
             None \<Rightarrow> None
           | Some u \<Rightarrow>
               if bubbleType (?out ! i) = Ai \<and> u < bubbleTimestamp (?out ! i)
               then Some (bubbleTimestamp (?out ! i) - u) else None)"
    by (rule conjunct2)
  note e2 = a [rule_format, OF len(2)]
  note e1 = a [rule_format, OF len(1)]
  from trans [OF e2 r2] trans [OF e1 r1] show ?thesis by (rule conjI)
qed


text \<open>
  Claim C8 at a concrete input.  An answer is stored without \<open>createdAt\<close> and without
  \<open>timestamp\<close>, after a question of time 1000, and the conversation is assembled at
  time 5000.  The header loop has already given the answer the time of assembly
  (\<open>bubble.createdAt || bubble.timestamp || Date.now()\<close>) when the response-time pass
  tests \<open>b.timestamp != null\<close>, so the test never fails and the answer carries the
  response time 4000.
\<close>

theorem response_time_on_missing_timestamp:
  "createdAt (textBubble (js ''hi there'') None) = None \<and>
   timestamp (textBubble (js ''hi there'') None) = None \<and>
   map (\<lambda>c. (bubbleType c, bubbleTimestamp c, responseTimeOf c))
     (tabBubbles (the (fst (assembleTab (\<lambda>_. 5000) 0 (js ''c1'')
        (conversation [hdr (js ''b1'') 1, hdr (js ''b2'') 2])
        [js ''b1'' \<mapsto> textBubble (js ''hello'') (Some 1000),
         js ''b2'' \<mapsto> textBubble (js ''hi there'') None]
        Map.empty Map.empty)))) = [(User, 1000, None), (Ai, 5000, Some 4000)]"
  by code_simp

lemma all_dropWhile: "(\<forall>x \<in> set (dropWhile P xs). P x) \<longleftrightarrow> (\<forall>x \<in> set xs. P x)"
  by (induction xs) auto

lemma trim_Nil_iff: "trim s = [] \<longleftrightarrow> (\<forall>c \<in> set s. isSpace c)"
  by (simp add: trim_def all_dropWhile)

lemma trim_append_Nil: "trim (s @ t) = [] \<Longrightarrow> trim s = []"
  by (simp add: trim_Nil_iff)

lemma thinking_text_truthy: "truthy (bubbleThinking b) \<Longrightarrow> thinkingTruthy b"
  by (auto simp: bubbleThinking_def thinkingTruthy_def truthy_def
      split: option.splits thinkingField.splits if_splits)

lemma export_keeps_iff:
  "export_keeps b \<longleftrightarrow>
     trim (extractTextFromBubble b) \<noteq> [] \<or> toolFormerData b \<noteq> None \<or> thinkingTruthy b"
  by (auto simp: export_keeps_def)

lemma export_headers_proj:
  "map (\<lambda>c. (export_type c, export_text c)) (fst (export_headers clock bm hs (acc, n))) =
     map (\<lambda>c. (export_type c, export_text c)) acc @
     map (\<lambda>(h, b). (roleOf h, exportText b))
       (filter (\<lambda>(h, b). export_keeps b) (headerBubbles bm hs))"
proof (induction hs arbitrary: acc n)
  case Nil
  then show ?case by (simp add: headerBubbles_def)
next
  case (Cons h hs)
  show ?case
  proof (cases "bm (bubbleId h)")
    case None
    then show ?thesis using Cons.IH [of acc n] by (simp add: headerBubbles_def)
  next
    case (Some b)
    show ?thesis
    proof (cases "export_keeps b")
      case False
      with Some show ?thesis using Cons.IH [of acc n] by (simp add: headerBubbles_def)
    next
      case True
      obtain ts n' where t: "bubbleTime clock n b = (ts, n')" by (cases "bubbleTime clock n b")
      with Some True show ?thesis
        using Cons.IH [of "acc @ [\<lparr>export_type = (if headerType h = 1 then User else Ai),
                          export_text = exportText b, export_timestamp = ts,
                          export_toolCalls = bubbleToolCalls b,
                          export_thinking =
                            (if thinkingTruthy b then bubbleThinking b else None)\<rparr>]" n']
        by (simp add: headerBubbles_def roleOf_def)
    qed
  qed
qed

lemma export_diffs_proj:
  "map (\<lambda>c. (export_type c, export_text c)) (fst (export_diffs clock stringify cd ds (acc, n))) =
     map (\<lambda>c. (export_type c, export_text c)) acc @
     map (\<lambda>d. (Ai, js ''**Code edit:** '' @ take 500 (stringify d))) ds"
proof (induction ds arbitrary: acc n)
  case Nil
  then show ?case by simp
next
  case (Cons d ds)
  obtain ts n' where t: "composerTime clock n cd = (ts, n')" by (cases "composerTime clock n cd")
  show ?case
    using Cons.IH [of "acc @ [\<lparr>export_type = Ai,
                        export_text = js ''**Code edit:** '' @ take 500 (stringify d),
                        export_timestamp = ts, export_toolCalls = None,
                        export_thinking = None\<rparr>]" n'] t
    by simp
qed

lemma export_bubbles_proj:
  "mset (map (\<lambda>c. (export_type c, export_text c))
           (fst (export_bubbles clock n stringify composerId cd bm dm))) =
     mset (map (\<lambda>(h, b). (roleOf h, exportText b))
             (filter (\<lambda>(h, b). export_keeps b)
                (headerBubbles bm (fullConversationHeadersOnly cd)))) +
     mset (map (\<lambda>d. (Ai, js ''**Code edit:** '' @ take 500 (stringify d)))
             (diffsOf dm composerId))"
proof -
  obtain kept n1 where k:
    "export_headers clock bm (fullConversationHeadersOnly cd) ([], n) = (kept, n1)"
    by (cases "export_headers clock bm (fullConversationHeadersOnly cd) ([], n)")
  obtain withDiffs n2 where d:
    "export_diffs clock stringify cd (diffsOf dm composerId) (kept, n1) = (withDiffs, n2)"
    by (cases "export_diffs clock stringify cd (diffsOf dm composerId) (kept, n1)")
  let ?p = "\<lambda>c. (export_type c, export_text c)"
  have "fst (export_bubbles clock n stringify composerId cd bm dm) =
          sort_key export_timestamp withDiffs"
    using k d by (simp add: export_bubbles_def diffsOf_def)
  then have "mset (map ?p (fst (export_bubbles clock n stringify composerId cd bm dm))) =
             mset (map ?p withDiffs)"
    by simp
  also have "map ?p withDiffs =
      map ?p kept @
      map (\<lambda>d. (Ai, js ''**Code edit:** '' @ take 500 (stringify d))) (diffsOf dm composerId)"
    using export_diffs_proj [of clock stringify cd "diffsOf dm composerId" kept n1] d by simp
  also have "map ?p kept =
      map (\<lambda>(h, b). (roleOf h, exportText b))
        (filter (\<lambda>(h, b). export_keeps b) (headerBubbles bm (fullConversationHeadersOnly cd)))"
    using export_headers_proj [of clock bm "fullConversationHeadersOnly cd" "[]" n] k by simp
  finally show ?thesis by simp
qed

lemma assembleTab_proj:
  assumes "assembleTab clock n composerId cd bm cm dm = (Some tab, n')"
  shows "mset (map (\<lambda>c. (bubbleType c, bubbleText c)) (tabBubbles tab)) =
           mset (map (\<lambda>(h, b). (roleOf h, displayText (contextsOf cm composerId) h b))
                   (filter (\<lambda>(h, b). hasContent (contextsOf cm composerId) h b)
                      (headerBubbles bm (fullConversationHeadersOnly cd)))) +
           mset (map (\<lambda>d. (Ai, js ''**Tool Action:**'' @ formatToolAction d))
                   (filter (\<lambda>d. trim (formatToolAction d) \<noteq> []) (diffsOf dm composerId)))"
proof -
  from assembleTab_Some [OF assms] obtain built n1 withDiffs where a:
    "buildBubbles clock bm (contextsOf cm composerId) (fullConversationHeadersOnly cd) ([], n)
       = (built, n1)"
    "diffBubbles clock (diffsOf dm composerId) (built, n1) = (withDiffs, n')"
    "tabBubbles tab = responseTimes None (sort_key bubbleTimestamp withDiffs)"
    by blast
  let ?p = "\<lambda>c. (bubbleType c, bubbleText c)"
  have "map ?p (tabBubbles tab) = map ?p (sort_key bubbleTimestamp withDiffs)"
    using arg_cong [OF responseTimes_proj [of None "sort_key bubbleTimestamp withDiffs"],
        of "map (\<lambda>(t, x, s). (t, x))"]
    by (simp add: a(3) comp_def)
  then have "mset (map ?p (tabBubbles tab)) = mset (map ?p withDiffs)"
    by simp
  also have "map ?p withDiffs =
      map ?p built @
      map (\<lambda>d. (Ai, js ''**Tool Action:**'' @ formatToolAction d))
        (filter (\<lambda>d. trim (formatToolAction d) \<noteq> []) (diffsOf dm composerId))"
    using diffBubbles_proj [of clock "diffsOf dm composerId" built n1] a(2) by simp
  also have "map ?p built =
      map (\<lambda>(h, b). (roleOf h, displayText (contextsOf cm composerId) h b))
        (filter (\<lambda>(h, b). hasContent (contextsOf cm composerId) h b)
           (headerBubbles bm (fullConversationHeadersOnly cd)))"
    using buildBubbles_proj [of clock bm "contextsOf cm composerId"
        "fullConversationHeadersOnly cd" "[]" n] a(1) by simp
  finally show ?thesis by simp
qed

text \<open>
  Claim C9, as the code has it, for the tabs route and for the export script.  The
  bubbles of an assembled conversation are, role and text, exactly those of the stored
  fragments the filter keeps, together with the bubbles of the code-edit diffs.  The
  route keeps a fragment when its text is not blank after flattening the rich text,
  appending the code blocks and appending the text of the request contexts attached to
  it, or when it has a tool invocation, or when its reasoning trace has text; the
  export script keeps it when its own text is not blank, or when it has a tool
  invocation, or when it has a reasoning trace.  So both drop a fragment with no text,
  no tool invocation and no reasoning trace, and both keep a fragment with a tool
  invocation and a fragment whose reasoning trace has text.
\<close>

theorem kept_fragments:
  assumes "assembleTab clock n composerId cd bm cm dm = (Some tab, n')"
  shows
    "mset (map (\<lambda>c. (bubbleType c, bubbleText c)) (tabBubbles tab)) =
       mset (map (\<lambda>(h, b). (roleOf h, displayText (contextsOf cm composerId) h b))
               (filter (\<lambda>(h, b). hasContent (contextsOf cm composerId) h b)
                  (headerBubbles bm (fullConversationHeadersOnly cd)))) +
       mset (map (\<lambda>d. (Ai, js ''**Tool Action:**'' @ formatToolAction d))
               (filter (\<lambda>d. trim (formatToolAction d) \<noteq> []) (diffsOf dm composerId))) \<and>
     mset (map (\<lambda>c. (export_type c, export_text c))
             (fst (export_bubbles clock n stringify composerId cd bm dm))) =
       mset (map (\<lambda>(h, b). (roleOf h, exportText b))
               (filter (\<lambda>(h, b). export_keeps b)
                  (headerBubbles bm (fullConversationHeadersOnly cd)))) +
       mset (map (\<lambda>d. (Ai, js ''**Code edit:** '' @ take 500 (stringify d)))
               (diffsOf dm composerId)) \<and>
     (\<forall>h b. hasContent (contextsOf cm composerId) h b \<longleftrightarrow>
        trim (extractTextFromBubble b @ contextText (contextsOf cm composerId) (bubbleId h)) \<noteq> [] \<or>
        toolFormerData b \<noteq> None \<or> truthy (bubbleThinking b)) \<and>
     (\<forall>b. export_keeps b \<longleftrightarrow>
        trim (extractTextFromBubble b) \<noteq> [] \<or> toolFormerData b \<noteq> None \<or> thinkingTruthy b) \<and>
     (\<forall>h b.
        trim (extractTextFromBubble b @ contextText (contextsOf cm composerId) (bubbleId h)) = [] \<and>
        toolFormerData b = None \<and> \<not> thinkingTruthy b \<longrightarrow>
        \<not> hasContent (contextsOf cm composerId) h b \<and> \<not> export_keeps b) \<and>
     (\<forall>h b. toolFormerData b \<noteq> None \<or> truthy (bubbleThinking b) \<longrightarrow>
        hasContent (contextsOf cm composerId) h b \<and> export_keeps b)"
proof -
  let ?ctxs = "contextsOf cm composerId"
  have drop: "\<not> hasContent ?ctxs h b \<and> \<not> export_keeps b"
    if "trim (extractTextFromBubble b @ contextText ?ctxs (bubbleId h)) = [] \<and>
        toolFormerData b = None \<and> \<not> thinkingTruthy b" for h b
    using that trim_append_Nil [of "extractTextFromBubble b" "contextText ?ctxs (bubbleId h)"]
      thinking_text_truthy [of b]
    by (auto simp: hasContent_iff export_keeps_iff)
  have keep: "hasContent ?ctxs h b \<and> export_keeps b"
    if "toolFormerData b \<noteq> None \<or> truthy (bubbleThinking b)" for h b
    using that thinking_text_truthy [of b]
    by (auto simp: hasContent_iff export_keeps_iff)
  from assembleTab_proj [OF assms] export_bubbles_proj hasContent_iff export_keeps_iff drop keep
  show ?thesis by blast
qed

theorem kept_fragments_witness:
  "map (\<lambda>c. (bubbleType c, bubbleText c))
     (tabBubbles (the (fst (assembleTab (\<lambda>_. 5000) 0 (js ''c1'')
        (conversation [hdr (js ''b1'') 1, hdr (js ''b2'') 2, hdr (js ''b3'') 2, hdr (js ''b4'') 2])
        [js ''b1'' \<mapsto> textBubble (js ''hello'') (Some 1000),
         js ''b2'' \<mapsto> emptyBubble\<lparr>createdAt := Some 2000\<rparr>,
         js ''b3'' \<mapsto> toolBubble (js ''edit_file'') (Some 3000),
         js ''b4'' \<mapsto> thinkingBubble (js ''hmm'') (Some 4000)]
        Map.empty Map.empty)))) =
     [(User, js ''hello''), (Ai, js ''**Tool: edit_file**''), (Ai, js ''hmm'')] \<and>
   map (\<lambda>c. (export_type c, export_text c))
     (fst (export_bubbles (\<lambda>_. 5000) 0 (\<lambda>d. []) (js ''c1'')
        (conversation [hdr (js ''b1'') 1, hdr (js ''b2'') 2, hdr (js ''b3'') 2, hdr (js ''b4'') 2])
        [js ''b1'' \<mapsto> textBubble (js ''hello'') (Some 1000),
         js ''b2'' \<mapsto> emptyBubble\<lparr>createdAt := Some 2000\<rparr>,
         js ''b3'' \<mapsto> toolBubble (js ''edit_file'') (Some 3000),
         js ''b4'' \<mapsto> thinkingBubble (js ''hmm'') (Some 4000)]
        Map.empty)) =
     [(User, js ''hello''), (Ai, js ''**Tool: edit_file**''), (Ai, [])] \<and>
   mset (map (\<lambda>c. (bubbleType c, bubbleText c))
     (tabBubbles (the (fst (assembleTab (\<lambda>_. 5000) 0 (js ''c1'')
        (conversation [hdr (js ''b1'') 1, hdr (js ''b2'') 2, hdr (js ''b3'') 2, hdr (js ''b4'') 2])
        [js ''b1'' \<mapsto> textBubble (js ''hello'') (Some 1000),
         js ''b2'' \<mapsto> emptyBubble\<lparr>createdAt := Some 2000\<rparr>,
         js ''b3'' \<mapsto> toolBubble (js ''edit_file'') (Some 3000),
         js ''b4'' \<mapsto> thinkingBubble (js ''hmm'') (Some 4000)]
        Map.empty Map.empty))))) =
     mset (map (\<lambda>(h, b). (roleOf h, displayText (contextsOf Map.empty (js ''c1'')) h b))
             (filter (\<lambda>(h, b). hasContent (contextsOf Map.empty (js ''c1'')) h b)
                (headerBubbles
                   [js ''b1'' \<mapsto> textBubble (js ''hello'') (Some 1000),
                    js ''b2'' \<mapsto> emptyBubble\<lparr>createdAt := Some 2000\<rparr>,
                    js ''b3'' \<mapsto> toolBubble (js ''edit_file'') (Some 3000),
                    js ''b4'' \<mapsto> thinkingBubble (js ''hmm'') (Some 4000)]
                   (fullConversationHeadersOnly
                      (conversation
                         [hdr (js ''b1'') 1, hdr (js ''b2'') 2, hdr (js ''b3'') 2, hdr (js ''b4'') 2]))))) +
     mset (map (\<lambda>d. (Ai, js ''**Tool Action:**'' @ formatToolAction d))
             (filter (\<lambda>d. trim (formatToolAction d) \<noteq> []) (diffsOf Map.empty (js ''c1''))))"
proof -
  let ?cd = "conversation [hdr (js ''b1'') 1, hdr (js ''b2'') 2, hdr (js ''b3'') 2, hdr (js ''b4'') 2]"
  let ?bm = "[js ''b1'' \<mapsto> textBubble (js ''hello'') (Some 1000),
         js ''b2'' \<mapsto> emptyBubble\<lparr>createdAt := Some 2000\<rparr>,
         js ''b3'' \<mapsto> toolBubble (js ''edit_file'') (Some 3000),
         js ''b4'' \<mapsto> thinkingBubble (js ''hmm'') (Some 4000)]"
  let ?X = "assembleTab (\<lambda>_. 5000) 0 (js ''c1'') ?cd ?bm Map.empty Map.empty"
  have "fst ?X \<noteq> None" by code_simp
  then have x: "?X = (Some (the (fst ?X)), snd ?X)" by (cases ?X) auto
  have v: "map (\<lambda>c. (bubbleType c, bubbleText c)) (tabBubbles (the (fst ?X))) =
             [(User, js ''hello''), (Ai, js ''**Tool: edit_file**''), (Ai, js ''hmm'')]"
    by code_simp
  have e: "map (\<lambda>c. (export_type c, export_text c))
             (fst (export_bubbles (\<lambda>_. 5000) 0 (\<lambda>d. []) (js ''c1'') ?cd ?bm Map.empty)) =
             [(User, js ''hello''), (Ai, js ''**Tool: edit_file**''), (Ai, [])]"
    by code_simp
  from kept_fragments [OF x] have
    "mset (map (\<lambda>c. (bubbleType c, bubbleText c)) (tabBubbles (the (fst ?X)))) =
       mset (map (\<lambda>(h, b). (roleOf h, displayText (contextsOf Map.empty (js ''c1'')) h b))
               (filter (\<lambda>(h, b). hasContent (contextsOf Map.empty (js ''c1'')) h b)
                  (headerBubbles ?bm (fullConversationHeadersOnly ?cd)))) +
       mset (map (\<lambda>d. (Ai, js ''**Tool Action:**'' @ formatToolAction d))
               (filter (\<lambda>d. trim (formatToolAction d) \<noteq> []) (diffsOf Map.empty (js ''c1''))))"
    by (rule conjunct1)
  with v e show ?thesis by (intro conjI)
qed

text \<open>
  White space is that of \<open>trim\<close>: a fragment whose text is a no-break space and an em
  space (U+00A0, U+2003) is dropped by the tabs route and by the export script.
\<close>

lemma blank_fragment_dropped:
  "trim [0xA0, 0x2003] = [] \<and>
   fst (assembleTab (\<lambda>_. 5000) 0 (js ''c1'') (conversation [hdr (js ''b1'') 1])
          [js ''b1'' \<mapsto> textBubble [0xA0, 0x2003] (Some 1000)] Map.empty Map.empty) = None \<and>
   fst (export_bubbles (\<lambda>_. 5000) 0 (\<lambda>d. []) (js ''c1'') (conversation [hdr (js ''b1'') 1])
          [js ''b1'' \<mapsto> textBubble [0xA0, 0x2003] (Some 1000)] Map.empty) = []"
  by code_simp

text \<open>
  Claim C9 as stated counts only the text of the fragment itself, and keeps every
  fragment with a reasoning trace.  In the tabs route a fragment with no text, no tool
  invocation and no reasoning trace is kept when a request context with a git status
  is attached to it (the export script, which has no request contexts, drops it); and
  a fragment whose only content is a reasoning trace without text is dropped by the
  tabs route (no conversation is assembled from it) and kept by the export script.
\<close>

theorem context_only_fragment_kept:
  "extractTextFromBubble emptyBubble = [] \<and> toolFormerData emptyBubble = None \<and>
   raw_thinking emptyBubble = None \<and> \<not> export_keeps emptyBubble \<and>
   map bubbleType
     (tabBubbles (the (fst (assembleTab (\<lambda>_. 5000) 0 (js ''c1'') (conversation [hdr (js ''b1'') 2])
        [js ''b1'' \<mapsto> emptyBubble]
        [js ''c1'' \<mapsto> [emptyContext\<lparr>context_bubbleId := Some (js ''b1''),
                                         gitStatusRaw := Some (js ''M a.ts'')\<rparr>]]
        Map.empty)))) = [Ai] \<and>
   fst (assembleTab (\<lambda>_. 5000) 0 (js ''c1'') (conversation [hdr (js ''b1'') 2])
          [js ''b1'' \<mapsto> emptyBubble\<lparr>raw_thinking := Some (ThinkingObject None)\<rparr>]
          Map.empty Map.empty) = None \<and>
   map export_type
     (fst (export_bubbles (\<lambda>_. 5000) 0 (\<lambda>d. []) (js ''c1'') (conversation [hdr (js ''b1'') 2])
        [js ''b1'' \<mapsto> emptyBubble\<lparr>raw_thinking := Some (ThinkingObject None)\<rparr>]
        Map.empty)) = [Ai]"
  by code_simp






end
